theory Spec2Isabelle
  imports Main "HOL-Library.Sublist"
begin

section \<open>Go runtime: strings and errors\<close>

text \<open>
  A Go string is a sequence of bytes; it is modelled as a \<^typ>\<open>string\<close>, one
  \<^typ>\<open>char\<close> per byte. A nil slice and an empty slice are both the empty list,
  a nil map and an empty map are both \<^term>\<open>Map.empty\<close> (the code only takes
  their length, ranges over them and reads them). A \<open>*string\<close> is a
  \<^typ>\<open>string option\<close>.
\<close>

text \<open>
  \<open>unicode.IsSpace\<close>: the UTF-8 encodings of the runes Go counts as white space
  (tab, LF, VT, FF, CR, space, U+0085, U+00A0, U+1680, U+2000 to U+200A, U+2028, U+2029,
  U+202F, U+205F, U+3000).
\<close>

definition whiteSpace :: "string list" where
  "whiteSpace =
     [[CHR 0x09], [CHR 0x0A], [CHR 0x0B], [CHR 0x0C], [CHR 0x0D], [CHR 0x20],
      [CHR 0xC2, CHR 0x85], [CHR 0xC2, CHR 0xA0],
      [CHR 0xE1, CHR 0x9A, CHR 0x80],
      [CHR 0xE2, CHR 0x80, CHR 0x80], [CHR 0xE2, CHR 0x80, CHR 0x81],
      [CHR 0xE2, CHR 0x80, CHR 0x82], [CHR 0xE2, CHR 0x80, CHR 0x83],
      [CHR 0xE2, CHR 0x80, CHR 0x84], [CHR 0xE2, CHR 0x80, CHR 0x85],
      [CHR 0xE2, CHR 0x80, CHR 0x86], [CHR 0xE2, CHR 0x80, CHR 0x87],
      [CHR 0xE2, CHR 0x80, CHR 0x88], [CHR 0xE2, CHR 0x80, CHR 0x89],
      [CHR 0xE2, CHR 0x80, CHR 0x8A],
      [CHR 0xE2, CHR 0x80, CHR 0xA8], [CHR 0xE2, CHR 0x80, CHR 0xA9],
      [CHR 0xE2, CHR 0x80, CHR 0xAF], [CHR 0xE2, CHR 0x81, CHR 0x9F],
      [CHR 0xE3, CHR 0x80, CHR 0x80]]"

text \<open>The width in bytes of the white-space rune a string starts with, 0 if it starts with none.\<close>

definition leadingSpace :: "string list \<Rightarrow> string \<Rightarrow> nat" where
  "leadingSpace ws s = (case find (\<lambda>p. p \<noteq> [] \<and> prefix p s) ws of None \<Rightarrow> 0 | Some p \<Rightarrow> length p)"

function dropSpaces :: "string list \<Rightarrow> string \<Rightarrow> string" where
  "dropSpaces ws s = (if leadingSpace ws s = 0 then s else dropSpaces ws (drop (leadingSpace ws s) s))"
  by pat_completeness auto
termination
proof (relation "measure (\<lambda>(ws, s). length s)")
  show "wf (measure (\<lambda>(ws, s). length s))" by simp
next
  fix ws :: "string list" and s :: string
  assume nz: "leadingSpace ws s \<noteq> 0"
  then obtain p where p: "find (\<lambda>p. p \<noteq> [] \<and> prefix p s) ws = Some p"
    by (auto simp: leadingSpace_def split: option.splits)
  then have "p \<noteq> []" and "prefix p s"
    by (auto simp: find_Some_iff)
  then have "s \<noteq> []" by auto
  with nz show "((ws, drop (leadingSpace ws s) s), (ws, s)) \<in> measure (\<lambda>(ws, s). length s)"
    by simp
qed

text \<open>
  \<open>strings.TrimSpace\<close>: white-space runes are removed from the front, then from the
  back. A white-space rune at the end of the string is one of the byte sequences above
  as a suffix (every one of them is a lead byte followed by continuation bytes only).
\<close>

definition TrimSpace :: "string \<Rightarrow> string" where
  "TrimSpace s = rev (dropSpaces (map rev whiteSpace) (rev (dropSpaces whiteSpace s)))"

text \<open>\<open>strings.Index\<close>: the byte offset of the first occurrence, \<open>None\<close> for -1.\<close>

fun Index :: "string \<Rightarrow> string \<Rightarrow> nat option" where
  "Index [] sub = (if sub = [] then Some 0 else None)"
| "Index (c # cs) sub = (if prefix sub (c # cs) then Some 0 else map_option Suc (Index cs sub))"

text \<open>
  \<open>strings.Split\<close> at a one-byte separator (the code splits at \<open>","\<close> and
  \<open>"="\<close> only): the pieces between the separators, at least one piece.
\<close>

text \<open>The pieces of the rest are never none, so the first case of the \<open>case\<close> below is never taken.\<close>

fun Split :: "string \<Rightarrow> char \<Rightarrow> string list" where
  "Split [] sep = [[]]"
| "Split (c # cs) sep =
     (if c = sep then [] # Split cs sep
      else (case Split cs sep of [] \<Rightarrow> [[c]] | p # ps \<Rightarrow> (c # p) # ps))"

text \<open>\<open>strings.Join\<close>.\<close>

fun Join :: "string list \<Rightarrow> string \<Rightarrow> string" where
  "Join [] sep = []"
| "Join [x] sep = x"
| "Join (x # y # ys) sep = x @ sep @ Join (y # ys) sep"

text \<open>\<open>fmt\<close>'s \<open>%v\<close> of a \<open>[]string\<close>: the elements between brackets, separated by a space.\<close>

definition fmtStrings :: "string list \<Rightarrow> string" where
  "fmtStrings xs = ''['' @ Join xs '' '' @ '']''"

text \<open>The errors of \<open>github.com/pingcap/errors\<close>: \<open>errors.New\<close> and \<open>errors.WithMessage\<close>.\<close>

datatype error = New string | WithMessage error string

section \<open>Package querybuilder\<close>

text \<open>
  The parts of the package that the table code calls and that are defined in other files
  of the package are parameters of the model: the identifier quoting \<open>backtick\<close>, the
  string-literal quoting \<open>quote\<close>, and the \<open>SELECT\<close> builder
  (\<open>NewSelect(fields, from).WithCluster(cluster).Where(WhereEquals(k, v), ...).Build()\<close>),
  which returns a statement or an error.
\<close>

record querybuilder =
  backtick :: "string \<Rightarrow> string"
  quote :: "string \<Rightarrow> string"
  selectBuild :: "string list \<Rightarrow> string \<Rightarrow> string option \<Rightarrow> (string \<times> string) list \<Rightarrow> error + string"

record TableColumn =
  col_Name :: string
  col_Type :: string
  col_Default :: "string option"
  col_Comment :: "string option"

subsection \<open>DROP TABLE\<close>

definition dropTable_Build :: "('q) querybuilder_scheme \<Rightarrow> string \<Rightarrow> string \<Rightarrow> string option \<Rightarrow> error + string" where
  "dropTable_Build qb dbName tblName cluster =
     (if dbName = [] then Inl (New ''databaseName cannot be empty for DROP TABLE queries'')
      else if tblName = [] then Inl (New ''tableName cannot be empty for DROP TABLE queries'')
      else
        (let tokens = [''DROP'', ''TABLE'', backtick qb dbName @ ''.'' @ backtick qb tblName];
             tokens = (case cluster of None \<Rightarrow> tokens
                       | Some c \<Rightarrow> tokens @ [''ON'', ''CLUSTER'', quote qb c])
         in Inr (Join tokens '' '' @ '';'')))"

subsection \<open>CREATE TABLE\<close>

record createTableQueryBuilder =
  databaseName :: string
  tableName :: string
  columns :: "TableColumn list"
  clusterName :: "string option"
  engine :: string
  orderBy :: "string list"
  partitionBy :: "string option"
  primaryKey :: "string list"
  sampleBy :: "string option"
  ttl :: "string option"
  settings :: "string \<rightharpoonup> string"
  comment :: "string option"

definition NewCreateTable :: "string \<Rightarrow> string \<Rightarrow> TableColumn list \<Rightarrow> createTableQueryBuilder" where
  "NewCreateTable dbName tblName cols =
     \<lparr>databaseName = dbName, tableName = tblName, columns = cols, clusterName = None,
      engine = [], orderBy = [], partitionBy = None, primaryKey = [], sampleBy = None,
      ttl = None, settings = Map.empty, comment = None\<rparr>"

definition WithCluster :: "string option \<Rightarrow> createTableQueryBuilder \<Rightarrow> createTableQueryBuilder" where
  "WithCluster c q = q\<lparr>clusterName := c\<rparr>"

definition WithEngine :: "string \<Rightarrow> createTableQueryBuilder \<Rightarrow> createTableQueryBuilder" where
  "WithEngine e q = q\<lparr>engine := e\<rparr>"

definition WithOrderBy :: "string list \<Rightarrow> createTableQueryBuilder \<Rightarrow> createTableQueryBuilder" where
  "WithOrderBy xs q = q\<lparr>orderBy := xs\<rparr>"

definition WithPartitionBy :: "string \<Rightarrow> createTableQueryBuilder \<Rightarrow> createTableQueryBuilder" where
  "WithPartitionBy p q = q\<lparr>partitionBy := Some p\<rparr>"

definition WithPrimaryKey :: "string list \<Rightarrow> createTableQueryBuilder \<Rightarrow> createTableQueryBuilder" where
  "WithPrimaryKey xs q = q\<lparr>primaryKey := xs\<rparr>"

definition WithSampleBy :: "string \<Rightarrow> createTableQueryBuilder \<Rightarrow> createTableQueryBuilder" where
  "WithSampleBy s q = q\<lparr>sampleBy := Some s\<rparr>"

definition WithTTL :: "string \<Rightarrow> createTableQueryBuilder \<Rightarrow> createTableQueryBuilder" where
  "WithTTL t q = q\<lparr>ttl := Some t\<rparr>"

definition WithSettings :: "(string \<rightharpoonup> string) \<Rightarrow> createTableQueryBuilder \<Rightarrow> createTableQueryBuilder" where
  "WithSettings m q = q\<lparr>settings := m\<rparr>"

definition WithComment :: "string \<Rightarrow> createTableQueryBuilder \<Rightarrow> createTableQueryBuilder" where
  "WithComment c q = q\<lparr>comment := Some c\<rparr>"

text \<open>One column definition of the parenthesised list, without the separator.\<close>

definition columnDef :: "('q) querybuilder_scheme \<Rightarrow> TableColumn \<Rightarrow> string" where
  "columnDef qb col =
     backtick qb (col_Name col) @ '' '' @ col_Type col
     @ (case col_Default col of None \<Rightarrow> [] | Some d \<Rightarrow> '' DEFAULT '' @ d)
     @ (case col_Comment col of None \<Rightarrow> [] | Some c \<Rightarrow> '' COMMENT '' @ quote qb c)"

text \<open>
  A \<open>for i, x := range xs\<close> loop that writes \<open>", "\<close> before every element but the
  first: the pieces joined by \<open>", "\<close>.
\<close>

definition commaList :: "string list \<Rightarrow> string" where
  "commaList xs = Join xs '', ''"

text \<open>
  \<open>for key, value := range q.settings\<close>: Go leaves the order in which a map is ranged
  over unspecified, and it may differ from one loop to the next. The order the runtime
  takes is the list \<open>kvs\<close> of the map's entries, each key once.
\<close>

definition rangeOrder :: "('k \<rightharpoonup> 'v) \<Rightarrow> ('k \<times> 'v) list \<Rightarrow> bool" where
  "rangeOrder m kvs = (distinct (map fst kvs) \<and> map_of kvs = m)"

definition createTable_Build ::
    "('q) querybuilder_scheme \<Rightarrow> (string \<times> string) list \<Rightarrow> createTableQueryBuilder \<Rightarrow> error + string" where
  "createTable_Build qb kvs q =
     (if databaseName q = [] then Inl (New ''databaseName cannot be empty for CREATE TABLE queries'')
      else if tableName q = [] then Inl (New ''tableName cannot be empty for CREATE TABLE queries'')
      else if length (columns q) = 0 then Inl (New ''columns cannot be empty for CREATE TABLE queries'')
      else if engine q = [] then Inl (New ''engine cannot be empty for CREATE TABLE queries'')
      else Inr
        (''CREATE TABLE '' @ backtick qb (databaseName q) @ ''.'' @ backtick qb (tableName q)
         @ (case clusterName q of None \<Rightarrow> [] | Some c \<Rightarrow> '' ON CLUSTER '' @ quote qb c)
         @ '' ('' @ commaList (map (columnDef qb) (columns q)) @ '')''
         @ '' ENGINE = '' @ engine q
         @ (if length (orderBy q) > 0
            then '' ORDER BY ('' @ commaList (map (backtick qb) (orderBy q)) @ '')'' else [])
         @ (case partitionBy q of None \<Rightarrow> [] | Some p \<Rightarrow> '' PARTITION BY '' @ p)
         @ (if length (primaryKey q) > 0
            then '' PRIMARY KEY ('' @ commaList (map (backtick qb) (primaryKey q)) @ '')'' else [])
         @ (case sampleBy q of None \<Rightarrow> [] | Some s \<Rightarrow> '' SAMPLE BY '' @ s)
         @ (case ttl q of None \<Rightarrow> [] | Some t \<Rightarrow> '' TTL '' @ t)
         @ (if settings q \<noteq> Map.empty
            then '' SETTINGS '' @ commaList (map (\<lambda>(key, value). key @ '' = '' @ value) kvs) else [])
         @ (case comment q of None \<Rightarrow> [] | Some c \<Rightarrow> '' COMMENT '' @ quote qb c)
         @ '';''))"

text \<open>The statements \<open>Build\<close> may return: one for each order the map may be ranged over in.\<close>

definition createTable_Build_results :: "('q) querybuilder_scheme \<Rightarrow> createTableQueryBuilder \<Rightarrow> (error + string) set" where
  "createTable_Build_results qb q = {createTable_Build qb kvs q | kvs. rangeOrder (settings q) kvs}"

subsection \<open>ALTER TABLE\<close>

definition addColumnClause :: "('q) querybuilder_scheme \<Rightarrow> TableColumn \<Rightarrow> string" where
  "addColumnClause qb col =
     '' ADD COLUMN '' @ ''`'' @ col_Name col @ ''` '' @ col_Type col
     @ (case col_Default col of None \<Rightarrow> []
        | Some d \<Rightarrow> if d \<noteq> [] then '' DEFAULT '' @ d else [])
     @ (case col_Comment col of None \<Rightarrow> []
        | Some c \<Rightarrow> if c \<noteq> [] then '' COMMENT '' @ quote qb c else [])"

definition alterTableHead :: "('q) querybuilder_scheme \<Rightarrow> string \<Rightarrow> string \<Rightarrow> string option \<Rightarrow> string" where
  "alterTableHead qb dbName tblName cluster =
     ''ALTER TABLE '' @ ''`'' @ dbName @ ''`.`'' @ tblName @ ''`''
     @ (case cluster of None \<Rightarrow> []
        | Some c \<Rightarrow> if c \<noteq> [] then '' ON CLUSTER '' @ quote qb c else [])"

definition alterTableAddColumn_Build ::
    "('q) querybuilder_scheme \<Rightarrow> string \<Rightarrow> string \<Rightarrow> TableColumn list \<Rightarrow> string option \<Rightarrow> error + string" where
  "alterTableAddColumn_Build qb dbName tblName cols cluster =
     (if dbName = [] then Inl (New ''database name is required'')
      else if tblName = [] then Inl (New ''table name is required'')
      else if length cols = 0 then Inl (New ''at least one column is required'')
      else Inr (alterTableHead qb dbName tblName cluster
                @ Join (map (addColumnClause qb) cols) '',''))"

definition alterTableDropColumn_Build ::
    "('q) querybuilder_scheme \<Rightarrow> string \<Rightarrow> string \<Rightarrow> string list \<Rightarrow> string option \<Rightarrow> error + string" where
  "alterTableDropColumn_Build qb dbName tblName columnNames cluster =
     (if dbName = [] then Inl (New ''database name is required'')
      else if tblName = [] then Inl (New ''table name is required'')
      else if length columnNames = 0 then Inl (New ''at least one column name is required'')
      else Inr (alterTableHead qb dbName tblName cluster
                @ Join (map (\<lambda>colName. '' DROP COLUMN '' @ ''`'' @ colName @ ''`'') columnNames) '',''))"

section \<open>Package dbops\<close>

subsection \<open>The ClickHouse client\<close>

text \<open>
  Modelled from the spec: package \<open>clickhouseclient\<close> (the spec's \<open>SqlExecutor\<close>:
  \<open>Exec(statement) -> error\<close>, \<open>Query(statement) -> rows, error\<close>) is not among the
  sources. The database behind it is a state of any type \<open>'b\<close>; \<open>chExec\<close> runs a
  statement on it and returns an error or none, \<open>chSelect\<close> runs a query and returns
  an error or the rows, \<open>GetString\<close> reads a field of a row. \<open>Select\<close> hands the rows
  to its callback one after the other and stops at the first error the callback returns.
\<close>

record ('b, 'row) ClickhouseClient =
  chExec :: "string \<Rightarrow> 'b \<Rightarrow> error option \<times> 'b"
  chSelect :: "string \<Rightarrow> 'b \<Rightarrow> (error + 'row list) \<times> 'b"
  GetString :: "'row \<Rightarrow> string \<Rightarrow> error + string"

text \<open>
  The world the operations run in: the database, and the statements handed to
  \<open>Exec\<close> so far, oldest first.
\<close>

record 'b world =
  executed :: "string list"
  backend :: 'b

definition Exec :: "('b, 'row) ClickhouseClient \<Rightarrow> string \<Rightarrow> 'b world \<Rightarrow> error option \<times> 'b world" where
  "Exec c sql w =
     (case chExec c sql (backend w) of
        (r, b) \<Rightarrow> (r, \<lparr>executed = executed w @ [sql], backend = b\<rparr>))"

fun forEachRow :: "('row \<Rightarrow> 'a \<Rightarrow> error + 'a) \<Rightarrow> 'row list \<Rightarrow> 'a \<Rightarrow> error + 'a" where
  "forEachRow callback [] acc = Inr acc"
| "forEachRow callback (r # rs) acc =
     (case callback r acc of Inl err \<Rightarrow> Inl err | Inr acc' \<Rightarrow> forEachRow callback rs acc')"

text \<open>
  The callbacks of the code assign to variables of the enclosing function; \<open>acc\<close> is
  the value of those variables, \<open>init\<close> their value before the call.
\<close>

definition Select ::
    "('b, 'row) ClickhouseClient \<Rightarrow> string \<Rightarrow> ('row \<Rightarrow> 'a \<Rightarrow> error + 'a) \<Rightarrow> 'a \<Rightarrow> 'b world
     \<Rightarrow> (error + 'a) \<times> 'b world" where
  "Select c sql callback init w =
     (case chSelect c sql (backend w) of
        (Inl err, b) \<Rightarrow> (Inl err, w\<lparr>backend := b\<rparr>)
      | (Inr rows, b) \<Rightarrow> (forEachRow callback rows init, w\<lparr>backend := b\<rparr>))"

subsection \<open>Tables\<close>

record Table =
  UUID :: string
  DatabaseName :: string
  Name :: string
  Engine :: string
  Columns :: "TableColumn list"
  OrderBy :: "string list"
  PartitionBy :: "string option"
  PrimaryKey :: "string list"
  SampleBy :: "string option"
  TTL :: "string option"
  Settings :: "string \<rightharpoonup> string"
  Comment :: string

definition parseKeyColumns :: "string \<Rightarrow> string list" where
  "parseKeyColumns key =
     (if key = [] then []
      else filter (\<lambda>trimmed. trimmed \<noteq> []) (map TrimSpace (Split key CHR '','')))"

text \<open>The slices \<open>s[i:]\<close> and \<open>s[i:j]\<close>; the code takes them within the string only.\<close>

definition sliceFrom :: "string \<Rightarrow> nat \<Rightarrow> string" where
  "sliceFrom s i = drop i s"

definition slice :: "string \<Rightarrow> nat \<Rightarrow> nat \<Rightarrow> string" where
  "slice s i j = take (j - i) (drop i s)"

definition addSetting :: "(string \<rightharpoonup> string) \<Rightarrow> string \<Rightarrow> (string \<rightharpoonup> string)" where
  "addSetting m pair =
     (case Split (TrimSpace pair) CHR ''='' of
        [k, v] \<Rightarrow> m(TrimSpace k \<mapsto> TrimSpace v)
      | _ \<Rightarrow> m)"

definition parseEngineFullForTTLAndSettings :: "string \<Rightarrow> string \<times> (string \<rightharpoonup> string)" where
  "parseEngineFullForTTLAndSettings engineFull =
     (let ttlExpr =
            (case Index engineFull ''TTL '' of
               None \<Rightarrow> []
             | Some idx \<Rightarrow>
                 (let ttlStart = idx + 4 in
                  case Index (sliceFrom engineFull ttlStart) '' SETTINGS'' of
                    None \<Rightarrow> TrimSpace (sliceFrom engineFull ttlStart)
                  | Some ttlEnd \<Rightarrow> TrimSpace (slice engineFull ttlStart (ttlStart + ttlEnd))));
          settingsMap =
            (case Index engineFull ''SETTINGS '' of
               None \<Rightarrow> Map.empty
             | Some idx \<Rightarrow> foldl addSetting Map.empty (Split (sliceFrom engineFull (idx + 9)) CHR '',''))
      in (ttlExpr, settingsMap))"

text \<open>\<open>r\<close>, and when it is a value, what \<open>f\<close> makes of it: the code's \<open>if err != nil { return err }\<close>.\<close>

definition andThen :: "error + 'a \<Rightarrow> ('a \<Rightarrow> error + 'c) \<Rightarrow> error + 'c" where
  "andThen r f = (case r of Inl err \<Rightarrow> Inl err | Inr v \<Rightarrow> f v)"

definition getField :: "('b, 'row) ClickhouseClient \<Rightarrow> 'row \<Rightarrow> string \<Rightarrow> string \<Rightarrow> error + string" where
  "getField c data field msg =
     (case GetString c data field of Inl err \<Rightarrow> Inl (WithMessage err msg) | Inr v \<Rightarrow> Inr v)"

text \<open>
  The callback of \<open>GetTable\<close>'s first query: the table of one row of
  \<open>system.tables\<close>. The code leaves \<open>Settings\<close> nil when the parsed map is
  empty: the empty map either way.
\<close>

definition tableOfRow :: "('b, 'row) ClickhouseClient \<Rightarrow> string \<Rightarrow> 'row \<Rightarrow> error + Table" where
  "tableOfRow c uuid data =
     andThen (getField c data ''database'' ''error scanning query result, missing 'database' field'') (\<lambda>dbName.
     andThen (getField c data ''name'' ''error scanning query result, missing 'name' field'') (\<lambda>name.
     andThen (getField c data ''engine'' ''error scanning query result, missing 'engine' field'') (\<lambda>engine.
     andThen (getField c data ''partition_key'' ''error scanning query result, missing 'partition_key' field'') (\<lambda>partitionKey.
     andThen (getField c data ''sorting_key'' ''error scanning query result, missing 'sorting_key' field'') (\<lambda>sortingKey.
     andThen (getField c data ''primary_key'' ''error scanning query result, missing 'primary_key' field'') (\<lambda>primaryKey.
     andThen (getField c data ''sampling_key'' ''error scanning query result, missing 'sampling_key' field'') (\<lambda>samplingKey.
     andThen (getField c data ''engine_full'' ''error scanning query result, missing 'engine_full' field'') (\<lambda>engineFull.
     andThen (getField c data ''comment'' ''error scanning query result, missing 'comment' field'') (\<lambda>comment.
       (case parseEngineFullForTTLAndSettings engineFull of
          (ttlExpr, settingsMap) \<Rightarrow>
            Inr \<lparr>UUID = uuid, DatabaseName = dbName, Name = name, Engine = engine, Columns = [],
                 OrderBy = (if sortingKey \<noteq> [] then parseKeyColumns sortingKey else []),
                 PartitionBy = (if partitionKey \<noteq> [] then Some partitionKey else None),
                 PrimaryKey = (if primaryKey \<noteq> [] then parseKeyColumns primaryKey else []),
                 SampleBy = (if samplingKey \<noteq> [] then Some samplingKey else None),
                 TTL = (if ttlExpr \<noteq> [] then Some ttlExpr else None),
                 Settings = settingsMap,
                 Comment = comment\<rparr>))))))))))"

text \<open>The callback of \<open>GetTable\<close>'s second query: the column of one row of \<open>system.columns\<close>.\<close>

definition columnOfRow :: "('b, 'row) ClickhouseClient \<Rightarrow> 'row \<Rightarrow> error + TableColumn" where
  "columnOfRow c data =
     andThen (getField c data ''name'' ''error scanning column result, missing 'name' field'') (\<lambda>name.
     andThen (getField c data ''type'' ''error scanning column result, missing 'type' field'') (\<lambda>colType.
     andThen (getField c data ''default_expression'' ''error scanning column result, missing 'default_expression' field'') (\<lambda>defaultExpr.
     andThen (getField c data ''comment'' ''error scanning column result, missing 'comment' field'') (\<lambda>comment.
       Inr \<lparr>col_Name = name, col_Type = colType,
            col_Default = (if defaultExpr \<noteq> [] then Some defaultExpr else None),
            col_Comment = (if comment \<noteq> [] then Some comment else None)\<rparr>))))"

definition GetTable ::
    "('q) querybuilder_scheme \<Rightarrow> ('b, 'row) ClickhouseClient \<Rightarrow> string \<Rightarrow> string option \<Rightarrow> 'b world
     \<Rightarrow> (error + Table option) \<times> 'b world" where
  "GetTable qb c uuid cluster w =
     (case selectBuild qb
             [''database'', ''name'', ''engine'', ''partition_key'', ''sorting_key'',
              ''primary_key'', ''sampling_key'', ''engine_full'', ''comment'']
             ''system.tables'' cluster [(''uuid'', uuid)] of
        Inl err \<Rightarrow> (Inl (WithMessage err ''error building query''), w)
      | Inr sql \<Rightarrow>
         (case Select c sql (\<lambda>data _. map_sum id Some (tableOfRow c uuid data)) None w of
            (Inl err, w1) \<Rightarrow> (Inl (WithMessage err ''error running query''), w1)
          | (Inr None, w1) \<Rightarrow> (Inr None, w1)
          | (Inr (Some table), w1) \<Rightarrow>
             (case selectBuild qb [''name'', ''type'', ''default_expression'', ''comment'']
                     ''system.columns'' cluster
                     [(''database'', DatabaseName table), (''table'', Name table)] of
                Inl err \<Rightarrow> (Inl (WithMessage err ''error building columns query''), w1)
              | Inr columnsSql \<Rightarrow>
                 (case Select c columnsSql
                         (\<lambda>data cols. map_sum id (\<lambda>col. cols @ [col]) (columnOfRow c data)) [] w1 of
                    (Inl err, w2) \<Rightarrow> (Inl (WithMessage err ''error querying columns''), w2)
                  | (Inr cols, w2) \<Rightarrow> (Inr (Some (table\<lparr>Columns := cols\<rparr>)), w2)))))"

definition DeleteTable ::
    "('q) querybuilder_scheme \<Rightarrow> ('b, 'row) ClickhouseClient \<Rightarrow> string \<Rightarrow> string option \<Rightarrow> 'b world
     \<Rightarrow> error option \<times> 'b world" where
  "DeleteTable qb c uuid cluster w =
     (case GetTable qb c uuid cluster w of
        (Inl err, w1) \<Rightarrow> (Some (WithMessage err ''error getting table''), w1)
      | (Inr None, w1) \<Rightarrow> (None, w1)
      | (Inr (Some table), w1) \<Rightarrow>
         (case dropTable_Build qb (DatabaseName table) (Name table) cluster of
            Inl err \<Rightarrow> (Some (WithMessage err ''error building query''), w1)
          | Inr sql \<Rightarrow>
             (case Exec c sql w1 of
                (Some err, w2) \<Rightarrow> (Some (WithMessage err ''error running query''), w2)
              | (None, w2) \<Rightarrow> (None, w2))))"

definition FindTableByName ::
    "('q) querybuilder_scheme \<Rightarrow> ('b, 'row) ClickhouseClient \<Rightarrow> string \<Rightarrow> string \<Rightarrow> string option \<Rightarrow> 'b world
     \<Rightarrow> (error + Table option) \<times> 'b world" where
  "FindTableByName qb c dbName tblName cluster w =
     (case selectBuild qb [''uuid''] ''system.tables'' cluster
             [(''database'', dbName), (''name'', tblName)] of
        Inl err \<Rightarrow> (Inl (WithMessage err ''error building query''), w)
      | Inr sql \<Rightarrow>
         (case Select c sql
                 (\<lambda>data _. getField c data ''uuid'' ''error scanning query result, missing 'uuid' field'')
                 [] w of
            (Inl err, w1) \<Rightarrow> (Inl (WithMessage err ''error running query''), w1)
          | (Inr uuid, w1) \<Rightarrow>
             (if uuid = [] then (Inl (New ''table with such name not found''), w1)
              else GetTable qb c uuid cluster w1)))"

definition AddTableColumns ::
    "('q) querybuilder_scheme \<Rightarrow> ('b, 'row) ClickhouseClient \<Rightarrow> string \<Rightarrow> string \<Rightarrow> TableColumn list \<Rightarrow> string option
     \<Rightarrow> 'b world \<Rightarrow> error option \<times> 'b world" where
  "AddTableColumns qb c dbName tblName cols cluster w =
     (case alterTableAddColumn_Build qb dbName tblName cols cluster of
        Inl err \<Rightarrow> (Some (WithMessage err ''error building ALTER TABLE ADD COLUMN query''), w)
      | Inr query \<Rightarrow>
         (case Exec c query w of
            (Some err, w1) \<Rightarrow> (Some (WithMessage err ''error adding columns to table''), w1)
          | (None, w1) \<Rightarrow> (None, w1)))"

definition DropTableColumns ::
    "('q) querybuilder_scheme \<Rightarrow> ('b, 'row) ClickhouseClient \<Rightarrow> string \<Rightarrow> string \<Rightarrow> string list \<Rightarrow> string option
     \<Rightarrow> 'b world \<Rightarrow> error option \<times> 'b world" where
  "DropTableColumns qb c dbName tblName columnNames cluster w =
     (case alterTableDropColumn_Build qb dbName tblName columnNames cluster of
        Inl err \<Rightarrow> (Some (WithMessage err ''error building ALTER TABLE DROP COLUMN query''), w)
      | Inr query \<Rightarrow>
         (case Exec c query w of
            (Some err, w1) \<Rightarrow> (Some (WithMessage err ''error dropping columns from table''), w1)
          | (None, w1) \<Rightarrow> (None, w1)))"

section \<open>Package table: the Terraform resource\<close>

subsection \<open>Values of the plugin framework\<close>

text \<open>
  A \<open>types.String\<close>, \<open>types.Bool\<close>, \<open>types.List\<close> or \<open>types.Map\<close> is null,
  unknown or a known value. The elements of the lists and maps of this resource are
  strings, taken as known.
\<close>

datatype 'a tfvalue = Null | Unknown | Known 'a

definition IsNull :: "'a tfvalue \<Rightarrow> bool" where
  "IsNull v = (case v of Null \<Rightarrow> True | _ \<Rightarrow> False)"

definition ValueString :: "string tfvalue \<Rightarrow> string" where
  "ValueString v = (case v of Known s \<Rightarrow> s | _ \<Rightarrow> [])"

definition ValueStringPointer :: "string tfvalue \<Rightarrow> string option" where
  "ValueStringPointer v = (case v of Null \<Rightarrow> None | Unknown \<Rightarrow> Some [] | Known s \<Rightarrow> Some s)"

definition ValueBool :: "bool tfvalue \<Rightarrow> bool" where
  "ValueBool v = (case v of Known b \<Rightarrow> b | _ \<Rightarrow> False)"

definition StringPointerValue :: "string option \<Rightarrow> string tfvalue" where
  "StringPointerValue p = (case p of None \<Rightarrow> Null | Some s \<Rightarrow> Known s)"

text \<open>
  A diagnostic: an error or a warning with its summary and detail, or an error the
  framework itself reports (its text is the framework's).
\<close>

datatype diagnostic = ErrorDiag string string | WarningDiag string string | FrameworkError

definition isError :: "diagnostic \<Rightarrow> bool" where
  "isError d = (case d of WarningDiag _ _ \<Rightarrow> False | _ \<Rightarrow> True)"

definition HasError :: "diagnostic list \<Rightarrow> bool" where
  "HasError ds = list_ex isError ds"

text \<open>
  \<open>Diagnostics.Append\<close> adds the diagnostics one after the other and skips one that the
  list already contains; \<open>AddError\<close> and \<open>AddWarning\<close> append the diagnostic they make
  of a summary and a detail.
\<close>

fun Append :: "diagnostic list \<Rightarrow> diagnostic list \<Rightarrow> diagnostic list" where
  "Append diags [] = diags"
| "Append diags (d # ds) = Append (if d \<in> set diags then diags else diags @ [d]) ds"

definition AddError :: "diagnostic list \<Rightarrow> string \<Rightarrow> string \<Rightarrow> diagnostic list" where
  "AddError diags summary detail = Append diags [ErrorDiag summary detail]"

definition AddWarning :: "diagnostic list \<Rightarrow> string \<Rightarrow> string \<Rightarrow> diagnostic list" where
  "AddWarning diags summary detail = Append diags [WarningDiag summary detail]"

text \<open>
  \<open>ElementsAs\<close> into a slice or a map of strings: the elements of a known value, the
  nil slice or map of a null one, an error diagnostic for an unknown one.
\<close>

definition ListElementsAs :: "string list tfvalue \<Rightarrow> diagnostic list + string list" where
  "ListElementsAs v = (case v of Known xs \<Rightarrow> Inr xs | Null \<Rightarrow> Inr [] | Unknown \<Rightarrow> Inl [FrameworkError])"

definition MapElementsAs :: "(string \<rightharpoonup> string) tfvalue \<Rightarrow> diagnostic list + (string \<rightharpoonup> string)" where
  "MapElementsAs v = (case v of Known m \<Rightarrow> Inr m | Null \<Rightarrow> Inr Map.empty | Unknown \<Rightarrow> Inl [FrameworkError])"

subsection \<open>The resource's model\<close>

record Column =
  Column_Name :: "string tfvalue"
  Column_Type :: "string tfvalue"
  Column_Default :: "string tfvalue"
  Column_Comment :: "string tfvalue"

record TableModel =
  m_ClusterName :: "string tfvalue"
  m_UUID :: "string tfvalue"
  m_DatabaseName :: "string tfvalue"
  m_Name :: "string tfvalue"
  m_Columns :: "Column list"
  m_Engine :: "string tfvalue"
  m_OrderBy :: "string list tfvalue"
  m_PartitionBy :: "string tfvalue"
  m_PrimaryKey :: "string list tfvalue"
  m_SampleBy :: "string tfvalue"
  m_TTL :: "string tfvalue"
  m_Settings :: "(string \<rightharpoonup> string) tfvalue"
  m_Comment :: "string tfvalue"
  m_AllowDrops :: "bool tfvalue"

subsection \<open>Engine normalisation\<close>

definition normalizeEngineName :: "string \<Rightarrow> string" where
  "normalizeEngineName e =
     (case Index e ''('' of Some idx \<Rightarrow> TrimSpace (take idx e) | None \<Rightarrow> TrimSpace e)"

definition cloudTransformations :: "(string \<times> string) list" where
  "cloudTransformations =
     [(''MergeTree'', ''SharedMergeTree''),
      (''ReplacingMergeTree'', ''SharedReplacingMergeTree''),
      (''SummingMergeTree'', ''SharedSummingMergeTree''),
      (''AggregatingMergeTree'', ''SharedAggregatingMergeTree''),
      (''CollapsingMergeTree'', ''SharedCollapsingMergeTree''),
      (''VersionedCollapsingMergeTree'', ''SharedVersionedCollapsingMergeTree'')]"

text \<open>
  The second loop returns true at the first entry that matches and false after the last:
  whether some entry matches, in whatever order the map is ranged over.
\<close>

definition isCloudEngineTransformation :: "string \<Rightarrow> string \<Rightarrow> bool" where
  "isCloudEngineTransformation planned actual =
     (case map_of cloudTransformations planned of
        Some expectedEngine \<Rightarrow> actual = expectedEngine
      | None \<Rightarrow> list_ex (\<lambda>(original, shared). planned = shared \<and> actual = original) cloudTransformations)"

subsection \<open>syncTableState\<close>

definition columnOfTableColumn :: "TableColumn \<Rightarrow> Column" where
  "columnOfTableColumn col =
     \<lparr>Column_Name = Known (col_Name col), Column_Type = Known (col_Type col),
      Column_Default = StringPointerValue (col_Default col),
      Column_Comment = StringPointerValue (col_Comment col)\<rparr>"

definition syncPrimaryKey :: "TableModel option \<Rightarrow> Table \<Rightarrow> error + string list tfvalue" where
  "syncPrimaryKey plan table =
     (case plan of
        Some p \<Rightarrow>
          andThen
            (if \<not> IsNull (m_PrimaryKey p)
             then (case ListElementsAs (m_PrimaryKey p) of
                     Inl _ \<Rightarrow> Inl (New ''failed to parse planned primary key'')
                   | Inr xs \<Rightarrow> Inr xs)
             else Inr [])
            (\<lambda>plannedPrimaryKey.
               if length plannedPrimaryKey = 0 \<and> length (PrimaryKey table) > 0
               then Inr (m_PrimaryKey p)
               else Inr (Known (PrimaryKey table)))
      | None \<Rightarrow> Inr (Known (PrimaryKey table)))"

text \<open>
  The loop over the planned settings copies the table's value of every planned key that
  the table has: the table's settings restricted to the planned keys.
\<close>

definition syncSettings :: "TableModel option \<Rightarrow> Table \<Rightarrow> error + (string \<rightharpoonup> string) tfvalue" where
  "syncSettings plan table =
     (case plan of
        Some p \<Rightarrow>
          if \<not> IsNull (m_Settings p)
          then (case MapElementsAs (m_Settings p) of
                  Inl _ \<Rightarrow> Inl (New ''failed to parse planned settings'')
                | Inr plannedSettings \<Rightarrow> Inr (Known (Settings table |` dom plannedSettings)))
          else Inr (Known Map.empty)
      | None \<Rightarrow> Inr (Known Map.empty))"

definition syncEngine :: "TableModel option \<Rightarrow> Table \<Rightarrow> string tfvalue" where
  "syncEngine plan table =
     (case plan of
        Some p \<Rightarrow>
          if \<not> IsNull (m_Engine p)
          then (let plannedEngine = ValueString (m_Engine p);
                    actualEngine = Engine table;
                    normalizedPlanned = normalizeEngineName plannedEngine;
                    normalizedActual = normalizeEngineName actualEngine
                in if isCloudEngineTransformation normalizedPlanned normalizedActual then m_Engine p
                   else if normalizedPlanned = normalizedActual then m_Engine p
                   else Known (Engine table))
          else Known (Engine table)
      | None \<Rightarrow> Known (Engine table))"

definition syncTTL :: "TableModel option \<Rightarrow> Table \<Rightarrow> string tfvalue" where
  "syncTTL plan table =
     (case plan of
        Some p \<Rightarrow> if \<not> IsNull (m_TTL p) \<and> TTL table \<noteq> None then m_TTL p
                  else StringPointerValue (TTL table)
      | None \<Rightarrow> StringPointerValue (TTL table))"

text \<open>The state \<open>syncTableState\<close> makes of the table it has read.\<close>

definition stateOfTable :: "string option \<Rightarrow> TableModel option \<Rightarrow> Table \<Rightarrow> error + TableModel" where
  "stateOfTable cluster plan table =
     andThen (syncPrimaryKey plan table) (\<lambda>primaryKeyList.
     andThen (syncSettings plan table) (\<lambda>settingsValue.
       Inr \<lparr>m_ClusterName = StringPointerValue cluster,
            m_UUID = Known (UUID table),
            m_DatabaseName = Known (DatabaseName table),
            m_Name = Known (Name table),
            m_Columns = map columnOfTableColumn (Columns table),
            m_Engine = syncEngine plan table,
            m_OrderBy = Known (OrderBy table),
            m_PartitionBy = StringPointerValue (PartitionBy table),
            m_PrimaryKey = primaryKeyList,
            m_SampleBy = StringPointerValue (SampleBy table),
            m_TTL = syncTTL plan table,
            m_Settings = settingsValue,
            m_Comment = Known (Comment table),
            m_AllowDrops = (case plan of Some p \<Rightarrow> m_AllowDrops p | None \<Rightarrow> Known False)\<rparr>))"

definition syncTableState ::
    "('q) querybuilder_scheme \<Rightarrow> ('b, 'row) ClickhouseClient \<Rightarrow> string \<Rightarrow> string option \<Rightarrow> TableModel option
     \<Rightarrow> 'b world \<Rightarrow> (error + TableModel option) \<times> 'b world" where
  "syncTableState qb c uuid cluster plan w =
     (case GetTable qb c uuid cluster w of
        (Inl err, w1) \<Rightarrow> (Inl (WithMessage err ''cannot get table''), w1)
      | (Inr None, w1) \<Rightarrow> (Inr None, w1)
      | (Inr (Some table), w1) \<Rightarrow> (map_sum id Some (stateOfTable cluster plan table), w1))"

subsection \<open>Update\<close>

text \<open>The loops that fill \<open>stateColumns\<close> and \<open>planColumns\<close>: a later column of a name replaces an earlier one.\<close>

definition columnMap :: "Column list \<Rightarrow> (string \<rightharpoonup> Column)" where
  "columnMap cols = foldl (\<lambda>m col. m(ValueString (Column_Name col) \<mapsto> col)) Map.empty cols"

fun findColumnsToAdd :: "(string \<rightharpoonup> Column) \<Rightarrow> Column list \<Rightarrow> TableColumn list" where
  "findColumnsToAdd stateColumns [] = []"
| "findColumnsToAdd stateColumns (planCol # rest) =
     (if stateColumns (ValueString (Column_Name planCol)) = None
      then \<lparr>col_Name = ValueString (Column_Name planCol),
            col_Type = ValueString (Column_Type planCol),
            col_Default = ValueStringPointer (Column_Default planCol),
            col_Comment = ValueStringPointer (Column_Comment planCol)\<rparr>
           # findColumnsToAdd stateColumns rest
      else findColumnsToAdd stateColumns rest)"

fun findColumnsToRemove :: "(string \<rightharpoonup> Column) \<Rightarrow> Column list \<Rightarrow> string list" where
  "findColumnsToRemove planColumns [] = []"
| "findColumnsToRemove planColumns (stateCol # rest) =
     (if planColumns (ValueString (Column_Name stateCol)) = None
      then ValueString (Column_Name stateCol) # findColumnsToRemove planColumns rest
      else findColumnsToRemove planColumns rest)"

definition columnsToAdd :: "TableModel \<Rightarrow> TableModel \<Rightarrow> TableColumn list" where
  "columnsToAdd plan state = findColumnsToAdd (columnMap (m_Columns state)) (m_Columns plan)"

definition columnsToRemove :: "TableModel \<Rightarrow> TableModel \<Rightarrow> string list" where
  "columnsToRemove plan state = findColumnsToRemove (columnMap (m_Columns plan)) (m_Columns state)"

text \<open>
  The response of \<open>Update\<close>: the diagnostics, and the state handed to
  \<open>resp.State.Set\<close> (\<open>None\<close> while it has not been called).
\<close>

record UpdateResponse =
  Diagnostics :: "diagnostic list"
  State :: "TableModel option option"

text \<open>
  \<open>plan\<close> and \<open>state\<close> are the decoded \<open>req.Plan\<close> and \<open>req.State\<close>, \<open>resp\<close> the
  response as the framework hands it in. \<open>fmtErr\<close> is \<open>fmt.Sprintf("%+v\n", err)\<close>,
  which prints the error with the stack it carries.
\<close>

definition Update ::
    "('q) querybuilder_scheme \<Rightarrow> ('b, 'row) ClickhouseClient \<Rightarrow> (error \<Rightarrow> string) \<Rightarrow> TableModel \<Rightarrow> TableModel
     \<Rightarrow> UpdateResponse \<Rightarrow> 'b world \<Rightarrow> UpdateResponse \<times> 'b world" where
  "Update qb c fmtErr plan state resp w =
     (if HasError (Diagnostics resp) then (resp, w)
      else if length (columnsToRemove plan state) > 0 \<and> \<not> ValueBool (m_AllowDrops plan)
      then (resp\<lparr>Diagnostics := AddError (Diagnostics resp) ''Column removal not allowed''
                 (''Cannot remove columns '' @ fmtStrings (columnsToRemove plan state)
                  @ '' because 'allow_drops' is set to false. To allow column removal, set 'allow_drops = true' in your table configuration.'')\<rparr>,
            w)
      else
       (case (if length (columnsToRemove plan state) > 0
              then DropTableColumns qb c (ValueString (m_DatabaseName state)) (ValueString (m_Name state))
                     (columnsToRemove plan state) (ValueStringPointer (m_ClusterName state)) w
              else (None, w)) of
          (Some err, w1) \<Rightarrow>
            (resp\<lparr>Diagnostics := AddError (Diagnostics resp) ''Error removing columns from table''
                                   (''Failed to remove columns: '' @ fmtErr err)\<rparr>, w1)
        | (None, w1) \<Rightarrow>
           (case (if length (columnsToAdd plan state) > 0
                  then AddTableColumns qb c (ValueString (m_DatabaseName state)) (ValueString (m_Name state))
                         (columnsToAdd plan state) (ValueStringPointer (m_ClusterName state)) w1
                  else (None, w1)) of
              (Some err, w2) \<Rightarrow>
                (resp\<lparr>Diagnostics := AddError (Diagnostics resp) ''Error adding columns to table''
                                       (''Failed to add columns: '' @ fmtErr err)\<rparr>, w2)
            | (None, w2) \<Rightarrow>
               (case syncTableState qb c (ValueString (m_UUID state)) (ValueStringPointer (m_ClusterName state))
                       (Some plan) w2 of
                  (Inl err, w3) \<Rightarrow>
                    (resp\<lparr>Diagnostics := AddError (Diagnostics resp) ''Error syncing table state''
                                           (fmtErr err)\<rparr>, w3)
                | (Inr updatedState, w3) \<Rightarrow> (resp\<lparr>State := Some updatedState\<rparr>, w3)))))"

subsection \<open>ModifyPlan\<close>

record ModifyPlanResponse =
  PlanDiagnostics :: "diagnostic list"
  RequiresReplace :: "string list"

text \<open>
  The loop over the columns of the state. It returns the diagnostics and, unless it has
  left \<open>ModifyPlan\<close> by its \<open>return\<close>, the value of \<open>requiresReplace\<close>.
\<close>

fun checkStateColumns ::
    "(string \<rightharpoonup> Column) \<Rightarrow> TableModel \<Rightarrow> (string \<Rightarrow> bool) \<Rightarrow> Column list \<Rightarrow> diagnostic list \<Rightarrow> bool
     \<Rightarrow> diagnostic list \<times> bool option" where
  "checkStateColumns planColumns plan orderBySet [] diags requiresReplace = (diags, Some requiresReplace)"
| "checkStateColumns planColumns plan orderBySet (stateCol # rest) diags requiresReplace =
     (case planColumns (ValueString (Column_Name stateCol)) of
        None \<Rightarrow>
          if \<not> ValueBool (m_AllowDrops plan)
          then (AddError diags ''Column removal not allowed''
                  (''Column '' @ [CHR 0x27] @ ValueString (Column_Name stateCol) @ [CHR 0x27]
                   @ '' cannot be removed because 'allow_drops' is set to false. To allow column removal, set 'allow_drops = true' in your table configuration.''),
                None)
          else if orderBySet (ValueString (Column_Name stateCol))
          then checkStateColumns planColumns plan orderBySet rest
                 (AddWarning diags ''Cannot remove column in ORDER BY''
                    (''Column '' @ [CHR 0x27] @ ValueString (Column_Name stateCol) @ [CHR 0x27]
                     @ '' is part of the table's ORDER BY clause and cannot be removed. This requires recreating the table.''))
                 True
          else checkStateColumns planColumns plan orderBySet rest diags requiresReplace
      | Some planCol \<Rightarrow>
          if Column_Type stateCol \<noteq> Column_Type planCol
          then checkStateColumns planColumns plan orderBySet rest
                 (AddWarning diags ''Column type change requires table recreation''
                    (''Column '' @ [CHR 0x27] @ ValueString (Column_Name stateCol) @ [CHR 0x27]
                     @ '' type change from '' @ [CHR 0x27] @ ValueString (Column_Type stateCol) @ [CHR 0x27]
                     @ '' to '' @ [CHR 0x27] @ ValueString (Column_Type planCol) @ [CHR 0x27]
                     @ '' requires recreating the table.''))
                 True
          else checkStateColumns planColumns plan orderBySet rest diags requiresReplace)"

text \<open>\<open>orderBySet\<close>: a \<open>map[string]bool\<close>, read as false where it has no entry.\<close>

definition orderBySetOf :: "string list \<Rightarrow> (string \<Rightarrow> bool)" where
  "orderBySetOf orderByColumns = foldl (\<lambda>m col. m(col := True)) (\<lambda>_. False) orderByColumns"

text \<open>
  \<open>planRaw\<close> and \<open>stateRaw\<close> are \<open>req.Plan\<close> and \<open>req.State\<close>, \<open>None\<close> when the raw
  value is null (the resource is being destroyed, or created).
\<close>

definition ModifyPlan :: "TableModel option \<Rightarrow> TableModel option \<Rightarrow> ModifyPlanResponse \<Rightarrow> ModifyPlanResponse" where
  "ModifyPlan planRaw stateRaw resp =
     (case planRaw of
        None \<Rightarrow> resp
      | Some plan \<Rightarrow>
         (case stateRaw of
            None \<Rightarrow> resp
          | Some state \<Rightarrow>
             if HasError (PlanDiagnostics resp) then resp
             else
              (case (if \<not> IsNull (m_OrderBy state) then ListElementsAs (m_OrderBy state) else Inr []) of
                 Inl diags \<Rightarrow> resp\<lparr>PlanDiagnostics := Append (PlanDiagnostics resp) diags\<rparr>
               | Inr orderByColumns \<Rightarrow>
                  (case checkStateColumns (columnMap (m_Columns plan)) plan (orderBySetOf orderByColumns)
                          (m_Columns state) (PlanDiagnostics resp) False of
                     (diags, None) \<Rightarrow> resp\<lparr>PlanDiagnostics := diags\<rparr>
                   | (diags, Some requiresReplace) \<Rightarrow>
                       resp\<lparr>PlanDiagnostics := diags,
                            RequiresReplace := (if requiresReplace then RequiresReplace resp @ [''columns'']
                                                else RequiresReplace resp)\<rparr>))))"

section \<open>The specification's words\<close>

text \<open>
  \<open>before\<close> and \<open>after\<close> are the text before and after the first occurrence of the
  token \<open>tok\<close> in \<open>s\<close>: the token stands between them, and no occurrence of it starts
  earlier.
\<close>

definition firstOccurrence :: "string \<Rightarrow> string \<Rightarrow> string \<Rightarrow> string \<Rightarrow> bool" where
  "firstOccurrence tok s before after =
     (s = before @ tok @ after \<and>
      (\<forall>before' after'. s = before' @ tok @ after' \<longrightarrow> length before \<le> length before'))"

text \<open>A piece that splits at \<open>=\<close> into exactly a key and a value, both trimmed.\<close>

definition keyValue :: "string \<Rightarrow> (string \<times> string) option" where
  "keyValue piece =
     (case Split (TrimSpace piece) CHR ''='' of
        [k, v] \<Rightarrow> Some (TrimSpace k, TrimSpace v)
      | _ \<Rightarrow> None)"

text \<open>The map of the pieces that are kept; of two pieces with the same key the later one counts.\<close>

definition settingsOfPieces :: "string list \<Rightarrow> (string \<rightharpoonup> string)" where
  "settingsOfPieces pieces = map_of (rev (List.map_filter keyValue pieces))"

text \<open>The names of a list of columns.\<close>

definition columnNames :: "Column list \<Rightarrow> string set" where
  "columnNames cols = (\<lambda>col. ValueString (Column_Name col)) ` set cols"

section \<open>Concrete inputs\<close>

text \<open>
  Modelled from the spec: the quoting functions of package querybuilder are not among
  the sources. Identifiers are wrapped in backticks and string literals in single quotes,
  neither escaped further (section 4.1 of the specification, and the statements the
  package's tests expect). The text of the SELECT statements is not specified; this
  builder writes the fields, the table and the conditions.
\<close>

definition specQuerybuilder :: querybuilder where
  "specQuerybuilder =
     \<lparr>backtick = (\<lambda>s. ''`'' @ s @ ''`''),
      quote = (\<lambda>s. [CHR 0x27] @ s @ [CHR 0x27]),
      selectBuild = (\<lambda>fields from cluster conds.
        Inr (''SELECT '' @ Join fields '', '' @ '' FROM '' @ from @ '' WHERE ''
             @ Join (map (\<lambda>(k, v). k @ '' = '' @ [CHR 0x27] @ v @ [CHR 0x27]) conds) '' AND ''))\<rparr>"

text \<open>
  A client that answers the queries from a script, one answer per query in the order
  they are asked (no rows once the script is used up), and accepts every statement. A
  row is a list of fields with their values.
\<close>

type_synonym row = "(string \<times> string) list"

definition scriptedClient :: "((error + row list) list, row) ClickhouseClient" where
  "scriptedClient =
     \<lparr>chExec = (\<lambda>sql b. (None, b)),
      chSelect = (\<lambda>sql b. case b of [] \<Rightarrow> (Inr [], []) | answer # rest \<Rightarrow> (answer, rest)),
      GetString = (\<lambda>data field. case map_of data field of
                                    None \<Rightarrow> Inl (New ''field not found'')
                                  | Some v \<Rightarrow> Inr v)\<rparr>"

definition scripted :: "(error + row list) list \<Rightarrow> (error + row list) list world" where
  "scripted answers = \<lparr>executed = [], backend = answers\<rparr>"

text \<open>The table \<open>analytics.events\<close> as the catalog describes it, with a given engine.\<close>

definition eventsRow :: "string \<Rightarrow> row" where
  "eventsRow eng =
     [(''database'', ''analytics''), (''name'', ''events''), (''engine'', eng),
      (''partition_key'', []), (''sorting_key'', ''id''), (''primary_key'', ''id''),
      (''sampling_key'', []), (''engine_full'', []), (''comment'', [])]"

definition eventsColumnRows :: "row list" where
  "eventsColumnRows =
     [[(''name'', ''id''), (''type'', ''UInt64''), (''default_expression'', []), (''comment'', [])],
      [(''name'', ''ts''), (''type'', ''DateTime''), (''default_expression'', ''now()''), (''comment'', [])]]"

definition eventsTable :: "string \<Rightarrow> Table" where
  "eventsTable eng =
     \<lparr>UUID = ''u-1'', DatabaseName = ''analytics'', Name = ''events'', Engine = eng,
      Columns = [\<lparr>col_Name = ''id'', col_Type = ''UInt64'', col_Default = None, col_Comment = None\<rparr>,
                 \<lparr>col_Name = ''ts'', col_Type = ''DateTime'', col_Default = Some ''now()'', col_Comment = None\<rparr>],
      OrderBy = [''id''], PartitionBy = None, PrimaryKey = [''id''], SampleBy = None,
      TTL = None, Settings = Map.empty, Comment = []\<rparr>"

text \<open>The resource's model of the same table: its columns, \<open>allow_drops\<close> and its engine.\<close>

definition column :: "string \<Rightarrow> string \<Rightarrow> Column" where
  "column n t = \<lparr>Column_Name = Known n, Column_Type = Known t, Column_Default = Null, Column_Comment = Null\<rparr>"

definition eventsModel :: "Column list \<Rightarrow> bool \<Rightarrow> string \<Rightarrow> TableModel" where
  "eventsModel cols allow eng =
     \<lparr>m_ClusterName = Null, m_UUID = Known ''u-1'', m_DatabaseName = Known ''analytics'',
      m_Name = Known ''events'', m_Columns = cols, m_Engine = Known eng,
      m_OrderBy = Known [''id''], m_PartitionBy = Null, m_PrimaryKey = Known [],
      m_SampleBy = Null, m_TTL = Null, m_Settings = Known Map.empty, m_Comment = Known [],
      m_AllowDrops = Known allow\<rparr>"

definition noDiagnostics :: ModifyPlanResponse where
  "noDiagnostics = \<lparr>PlanDiagnostics = [], RequiresReplace = []\<rparr>"

definition newResponse :: UpdateResponse where
  "newResponse = \<lparr>Diagnostics = [], State = None\<rparr>"

text \<open>The builder of the test "table with settings" of \<open>createtable_test.go\<close>.\<close>

definition optimizedTable :: createTableQueryBuilder where
  "optimizedTable =
     WithSettings [''index_granularity'' \<mapsto> ''16384'', ''merge_with_ttl_timeout'' \<mapsto> ''86400'']
       (WithOrderBy [''id'']
         (WithEngine ''MergeTree()''
           (NewCreateTable ''mydb'' ''optimized''
              [\<lparr>col_Name = ''id'', col_Type = ''UInt64'', col_Default = None, col_Comment = None\<rparr>])))"

section \<open>Validation of CREATE TABLE\<close>

text \<open>
  C4: \<open>Build\<close> of the CREATE TABLE builder fails if and only if the database name, the
  table name, the engine or the column list is empty, whatever the order the settings map
  is ranged over in; each of the four alone makes it fail.
\<close>

theorem createTable_Build_fails_iff:
  "isl (createTable_Build qb kvs q) =
     (databaseName q = [] \<or> tableName q = [] \<or> engine q = [] \<or> columns q = [])"
  by (simp add: createTable_Build_def)

section \<open>The statements an operation executes\<close>

lemma Select_executed: "executed (snd (Select c sql cb init w)) = executed w"
  by (simp add: Select_def split: prod.splits sum.splits)

lemma Exec_executed: "executed (snd (Exec c sql w)) = executed w @ [sql]"
  by (simp add: Exec_def split: prod.splits)

lemma GetTable_executed: "executed (snd (GetTable qb c uuid cluster w)) = executed w"
  unfolding GetTable_def
  apply (simp split: sum.splits prod.splits option.splits)
  apply (auto dest!: arg_cong[where f="\<lambda>p. executed (snd p)"] simp: Select_executed)
  done

lemma dropTable_Build_eq:
  "dropTable_Build qb d t cluster =
     (if d = [] then Inl (New ''databaseName cannot be empty for DROP TABLE queries'')
      else if t = [] then Inl (New ''tableName cannot be empty for DROP TABLE queries'')
      else Inr (''DROP TABLE '' @ backtick qb d @ ''.'' @ backtick qb t
                @ (case cluster of None \<Rightarrow> [] | Some cl \<Rightarrow> '' ON CLUSTER '' @ quote qb cl) @ '';''))"
  by (simp add: dropTable_Build_def split: option.splits)

lemma DeleteTable_found:
  assumes "GetTable qb c uuid cluster w = (Inr (Some table), w1)"
  shows "executed (snd (DeleteTable qb c uuid cluster w)) =
           executed w1 @ (case dropTable_Build qb (DatabaseName table) (Name table) cluster of
                            Inl _ \<Rightarrow> [] | Inr sql \<Rightarrow> [sql])"
proof (cases "dropTable_Build qb (DatabaseName table) (Name table) cluster")
  case (Inl e)
  with assms show ?thesis by (simp add: DeleteTable_def)
next
  case (Inr sql)
  obtain r w2 where e: "Exec c sql w1 = (r, w2)" by (cases "Exec c sql w1")
  have "executed (snd (Exec c sql w1)) = executed w1 @ [sql]" by (rule Exec_executed)
  with e have "executed w2 = executed w1 @ [sql]" by simp
  with assms Inr e show ?thesis
    by (cases r) (simp_all add: DeleteTable_def)
qed

section \<open>The scripted client\<close>

lemma parseKeyColumns_id: "parseKeyColumns ''id'' = [''id'']"
  by code_simp

lemma parseEngineFull_empty: "parseEngineFullForTTLAndSettings [] = ([], Map.empty)"
  by (simp add: parseEngineFullForTTLAndSettings_def)

lemma tableOfRow_events:
  "tableOfRow scriptedClient ''u-1'' (eventsRow eng) = Inr ((eventsTable eng)\<lparr>Columns := []\<rparr>)"
  by (simp add: tableOfRow_def getField_def andThen_def scriptedClient_def eventsRow_def
        eventsTable_def parseEngineFull_empty parseKeyColumns_id)

lemma columnOfRow_events:
  "forEachRow (\<lambda>data cols. map_sum id (\<lambda>col. cols @ [col]) (columnOfRow scriptedClient data))
     eventsColumnRows [] = Inr (Columns (eventsTable eng))"
  by (simp add: columnOfRow_def getField_def andThen_def scriptedClient_def eventsColumnRows_def
        eventsTable_def)

lemma GetTable_events:
  "GetTable specQuerybuilder scriptedClient ''u-1'' None
     (scripted (Inr [eventsRow eng] # Inr eventsColumnRows # rest))
   = (Inr (Some (eventsTable eng)), scripted rest)"
  by (simp add: GetTable_def Select_def specQuerybuilder_def scripted_def tableOfRow_events
        columnOfRow_events[of eng] scriptedClient_def[THEN arg_cong[where f=chSelect]] eventsTable_def)

lemma GetTable_no_rows:
  "GetTable specQuerybuilder scriptedClient uuid None (scripted []) = (Inr None, scripted [])"
  by (simp add: GetTable_def Select_def specQuerybuilder_def scripted_def scriptedClient_def)

lemma GetTable_refused:
  "GetTable specQuerybuilder scriptedClient uuid None (scripted [Inl (New ''connection refused'')])
     = (Inl (WithMessage (New ''connection refused'') ''error running query''), scripted [])"
  by (simp add: GetTable_def Select_def specQuerybuilder_def scripted_def scriptedClient_def)

section \<open>Deleting a table\<close>

text \<open>
  C3: when the catalog reports no table for the uuid (\<open>GetTable\<close> returns nil and no
  error), \<open>DeleteTable\<close> returns no error and hands no statement to \<open>Exec\<close>.
\<close>

theorem DeleteTable_absent:
  "GetTable qb c uuid cluster w = (Inr None, w1) \<Longrightarrow>
   DeleteTable qb c uuid cluster w = (None, w1) \<and> executed w1 = executed w"
  using GetTable_executed[of qb c uuid cluster w]
  by (simp add: DeleteTable_def)

theorem DeleteTable_absent_witness:
  "GetTable specQuerybuilder scriptedClient ''u-1'' None (scripted []) = (Inr None, scripted [])
   \<and> DeleteTable specQuerybuilder scriptedClient ''u-1'' None (scripted []) = (None, scripted [])
   \<and> executed (scripted [] :: (error + row list) list world) = []"
  using DeleteTable_absent[OF GetTable_no_rows[of "''u-1''"]] GetTable_no_rows[of "''u-1''"]
  by (simp add: scripted_def)

text \<open>
  C10: when \<open>GetTable\<close> returns a table, \<open>DeleteTable\<close> executes one statement, the
  DROP TABLE of the database name and the table name of that catalog read (none when one
  of the two names is empty and the builder refuses them); when \<open>GetTable\<close> fails,
  \<open>DeleteTable\<close> returns its error, wrapped, and executes nothing.
\<close>

theorem DeleteTable_drops_catalog_names:
  "(GetTable qb c uuid cluster w = (Inr (Some table), w1) \<longrightarrow>
      executed (snd (DeleteTable qb c uuid cluster w)) =
        executed w @ (if DatabaseName table = [] \<or> Name table = [] then []
                      else [''DROP TABLE '' @ backtick qb (DatabaseName table) @ ''.'' @ backtick qb (Name table)
                            @ (case cluster of None \<Rightarrow> [] | Some cl \<Rightarrow> '' ON CLUSTER '' @ quote qb cl) @ '';'']))
 \<and> (GetTable qb c uuid cluster w = (Inl err, w1) \<longrightarrow>
      DeleteTable qb c uuid cluster w = (Some (WithMessage err ''error getting table''), w1)
      \<and> executed w1 = executed w)"
proof (intro conjI impI)
  assume g: "GetTable qb c uuid cluster w = (Inr (Some table), w1)"
  have "executed w1 = executed w" using GetTable_executed[of qb c uuid cluster w] g by simp
  with DeleteTable_found[OF g] show "executed (snd (DeleteTable qb c uuid cluster w)) =
        executed w @ (if DatabaseName table = [] \<or> Name table = [] then []
                      else [''DROP TABLE '' @ backtick qb (DatabaseName table) @ ''.'' @ backtick qb (Name table)
                            @ (case cluster of None \<Rightarrow> [] | Some cl \<Rightarrow> '' ON CLUSTER '' @ quote qb cl) @ '';''])"
    by (simp add: dropTable_Build_eq)
next
  assume g: "GetTable qb c uuid cluster w = (Inl err, w1)"
  then show "DeleteTable qb c uuid cluster w = (Some (WithMessage err ''error getting table''), w1)"
    by (simp add: DeleteTable_def)
next
  assume g: "GetTable qb c uuid cluster w = (Inl err, w1)"
  then show "executed w1 = executed w" using GetTable_executed[of qb c uuid cluster w] by simp
qed

theorem DeleteTable_drops_catalog_names_witness:
  "executed (snd (DeleteTable specQuerybuilder scriptedClient ''u-1'' None
                    (scripted [Inr [eventsRow ''MergeTree''], Inr eventsColumnRows])))
     = [''DROP TABLE `analytics`.`events`;'']
   \<and> DeleteTable specQuerybuilder scriptedClient ''u-1'' None (scripted [Inl (New ''connection refused'')])
     = (Some (WithMessage (WithMessage (New ''connection refused'') ''error running query'') ''error getting table''),
        scripted [])"
  using DeleteTable_drops_catalog_names[of specQuerybuilder scriptedClient "''u-1''" None
          "scripted [Inr [eventsRow ''MergeTree''], Inr eventsColumnRows]" "eventsTable ''MergeTree''" "scripted []"]
        DeleteTable_drops_catalog_names[of specQuerybuilder scriptedClient "''u-1''" None
          "scripted [Inl (New ''connection refused'')]" _ "scripted []"
          "WithMessage (New ''connection refused'') ''error running query''"]
        GetTable_events[of "''MergeTree''" "[]"] GetTable_refused[of "''u-1''"]
  by (simp add: scripted_def eventsTable_def specQuerybuilder_def)

section \<open>Reading the catalog\<close>

text \<open>
  C6: when the query for the table's descriptor returns no row, \<open>GetTable\<close> returns nil
  and no error; when the query for the uuid of a database and table name returns no row,
  \<open>FindTableByName\<close> returns the error "table with such name not found".
\<close>

theorem absent_by_uuid_nil_by_name_error:
  "(selectBuild qb [''database'', ''name'', ''engine'', ''partition_key'', ''sorting_key'',
                    ''primary_key'', ''sampling_key'', ''engine_full'', ''comment'']
      ''system.tables'' cluster [(''uuid'', uuid)] = Inr sql
    \<and> chSelect c sql (backend w) = (Inr [], b)
    \<longrightarrow> GetTable qb c uuid cluster w = (Inr None, w\<lparr>backend := b\<rparr>))
 \<and> (selectBuild qb [''uuid''] ''system.tables'' cluster [(''database'', dbName), (''name'', tblName)] = Inr sql'
    \<and> chSelect c sql' (backend w) = (Inr [], b')
    \<longrightarrow> FindTableByName qb c dbName tblName cluster w
          = (Inl (New ''table with such name not found''), w\<lparr>backend := b'\<rparr>))"
  by (simp add: GetTable_def FindTableByName_def Select_def)

theorem absent_by_uuid_nil_by_name_error_witness:
  "GetTable specQuerybuilder scriptedClient ''u-1'' None (scripted []) = (Inr None, scripted [])
   \<and> FindTableByName specQuerybuilder scriptedClient ''analytics'' ''events'' None (scripted [])
       = (Inl (New ''table with such name not found''), scripted [])"
  using absent_by_uuid_nil_by_name_error[where qb=specQuerybuilder and cluster=None and uuid="''u-1''"
           and c=scriptedClient and w="scripted []" and b="[]" and dbName="''analytics''"
           and tblName="''events''" and b'="[]"]
  by (simp add: specQuerybuilder_def scriptedClient_def scripted_def)

section \<open>The change of the columns\<close>

lemma columnMap_foldl:
  "(foldl (\<lambda>m col. m(ValueString (Column_Name col) \<mapsto> col)) m0 cols) n = None
   \<longleftrightarrow> m0 n = None \<and> n \<notin> (\<lambda>col. ValueString (Column_Name col)) ` set cols"
  by (induction cols arbitrary: m0) auto

lemma columnMap_None:
  "columnMap cols n = None \<longleftrightarrow> n \<notin> (\<lambda>col. ValueString (Column_Name col)) ` set cols"
  by (simp add: columnMap_def columnMap_foldl)

lemma findColumnsToAdd_names:
  "col_Name ` set (findColumnsToAdd m cols)
     = {n \<in> (\<lambda>col. ValueString (Column_Name col)) ` set cols. m n = None}"
  by (induction cols) auto

lemma findColumnsToRemove_names:
  "set (findColumnsToRemove m cols)
     = {n \<in> (\<lambda>col. ValueString (Column_Name col)) ` set cols. m n = None}"
  by (induction cols) auto

lemma columnNames_simps:
  "columnNames [] = {}"
  "columnNames (column n t # cols) = insert n (columnNames cols)"
  by (simp_all add: columnNames_def column_def ValueString_def)

lemma eventsModel_sel:
  "m_Columns (eventsModel cols allow eng) = cols"
  "m_OrderBy (eventsModel cols allow eng) = Known [''id'']"
  "m_AllowDrops (eventsModel cols allow eng) = Known allow"
  "m_Engine (eventsModel cols allow eng) = Known eng"
  "m_PrimaryKey (eventsModel cols allow eng) = Known []"
  "m_Settings (eventsModel cols allow eng) = Known Map.empty"
  by (simp_all add: eventsModel_def)

text \<open>
  C5: for desired columns named a and b and observed columns named a and c (three
  different names, whatever the types, the order and the repetitions), the columns
  \<open>Update\<close> adds are those named b, the columns it removes are those named c, and the
  column a, which both have, is neither added nor removed.
\<close>

theorem column_diff_add_b_drop_c:
  assumes "columnNames (m_Columns plan) = {a, b}"
      and "columnNames (m_Columns state) = {a, c}"
      and "a \<noteq> b" and "a \<noteq> c" and "b \<noteq> c"
  shows "col_Name ` set (columnsToAdd plan state) = {b} \<and> set (columnsToRemove plan state) = {c}
         \<and> a \<notin> col_Name ` set (columnsToAdd plan state) \<and> a \<notin> set (columnsToRemove plan state)"
  using assms
  by (auto simp: columnNames_def columnsToAdd_def columnsToRemove_def findColumnsToAdd_names findColumnsToRemove_names columnMap_None)

theorem column_diff_add_b_drop_c_witness:
  "col_Name ` set (columnsToAdd (eventsModel [column ''a'' ''UInt64'', column ''b'' ''String''] False ''MergeTree()'')
                               (eventsModel [column ''a'' ''UInt64'', column ''c'' ''Date''] False ''MergeTree()'')) = {''b''}
   \<and> set (columnsToRemove (eventsModel [column ''a'' ''UInt64'', column ''b'' ''String''] False ''MergeTree()'')
                           (eventsModel [column ''a'' ''UInt64'', column ''c'' ''Date''] False ''MergeTree()'')) = {''c''}"
  using column_diff_add_b_drop_c[of "eventsModel [column ''a'' ''UInt64'', column ''b'' ''String''] False ''MergeTree()''" "''a''" "''b''"
              "eventsModel [column ''a'' ''UInt64'', column ''c'' ''Date''] False ''MergeTree()''" "''c''"]
  by (simp add: columnNames_simps eventsModel_def[THEN arg_cong[where f=m_Columns]])

section \<open>Removing columns\<close>

lemma AddError_no_error:
  "\<not> HasError diags \<Longrightarrow> AddError diags summary detail = diags @ [ErrorDiag summary detail]"
  by (auto simp: AddError_def HasError_def list_ex_iff isError_def)

lemma AddError_set: "set (AddError diags summary detail) = insert (ErrorDiag summary detail) (set diags)"
  by (auto simp: AddError_def)

lemma AddWarning_set: "set (AddWarning diags summary detail) = insert (WarningDiag summary detail) (set diags)"
  by (auto simp: AddWarning_def)

lemma HasError_AddWarning: "HasError (AddWarning diags summary detail) = HasError diags"
  by (auto simp: HasError_def list_ex_iff AddWarning_set isError_def)

lemma sublist_Join: "n \<in> set xs \<Longrightarrow> sublist n (Join xs sep)"
proof (induction xs sep rule: Join.induct)
  case (1 sep)
  then show ?case by simp
next
  case (2 x sep)
  then show ?case by simp
next
  case (3 x y ys sep)
  show ?case
  proof (cases "n = x")
    case True
    have "Join (x # y # ys) sep = [] @ x @ (sep @ Join (y # ys) sep)" by simp
    with True show ?thesis unfolding sublist_def by blast
  next
    case False
    with 3 have "sublist n (Join (y # ys) sep)" by simp
    then obtain ps ss where "Join (y # ys) sep = ps @ n @ ss" unfolding sublist_def by blast
    then have "Join (x # y # ys) sep = (x @ sep @ ps) @ n @ ss" by simp
    then show ?thesis unfolding sublist_def by blast
  qed
qed

lemma sublist_fmtStrings: "n \<in> set xs \<Longrightarrow> sublist n (fmtStrings xs)"
proof -
  assume "n \<in> set xs"
  then have "sublist n (Join xs '' '')" by (rule sublist_Join)
  then obtain ps ss where "Join xs '' '' = ps @ n @ ss" unfolding sublist_def by blast
  then have "fmtStrings xs = (''['' @ ps) @ n @ (ss @ '']'')" by (simp add: fmtStrings_def)
  then show ?thesis unfolding sublist_def by blast
qed

lemma columnsToRemove_events:
  "columnsToRemove (eventsModel [column ''id'' ''UInt64''] allow eng)
     (eventsModel [column ''id'' ''UInt64'', column ''ts'' ''DateTime''] allow' eng') = [''ts'']"
  by (simp add: columnsToRemove_def eventsModel_def column_def columnMap_def ValueString_def)

lemma fmtStrings_ts: "fmtStrings [''ts''] = ''[ts]''"
  by code_simp

text \<open>
  C2: when some column is to be removed and \<open>allow_drops\<close> is false, \<open>Update\<close> adds the
  error "Column removal not allowed", whose detail shows the list of the columns to be
  removed (every one of their names occurs in it), sets no state, and leaves the world
  as it is: it hands no statement to the client.
\<close>

theorem Update_removal_denied:
  assumes "\<not> HasError (Diagnostics resp)"
      and "columnsToRemove plan state \<noteq> []"
      and "\<not> ValueBool (m_AllowDrops plan)"
  shows "Update qb c fmtErr plan state resp w =
           (resp\<lparr>Diagnostics := Diagnostics resp @
              [ErrorDiag ''Column removal not allowed''
                 (''Cannot remove columns '' @ fmtStrings (columnsToRemove plan state)
                  @ '' because 'allow_drops' is set to false. To allow column removal, set 'allow_drops = true' in your table configuration.'')]\<rparr>,
            w)
         \<and> (\<forall>n \<in> set (columnsToRemove plan state). sublist n (fmtStrings (columnsToRemove plan state)))"
  using assms by (simp add: Update_def sublist_fmtStrings AddError_no_error)

theorem Update_removal_denied_witness:
  "Update specQuerybuilder scriptedClient (\<lambda>err. [])
     (eventsModel [column ''id'' ''UInt64''] False ''MergeTree()'')
     (eventsModel [column ''id'' ''UInt64'', column ''ts'' ''DateTime''] False ''MergeTree()'')
     newResponse (scripted [])
   = (\<lparr>Diagnostics =
         [ErrorDiag ''Column removal not allowed''
            ''Cannot remove columns [ts] because 'allow_drops' is set to false. To allow column removal, set 'allow_drops = true' in your table configuration.''],
       State = None\<rparr>,
      scripted [])
   \<and> sublist ''ts'' ''[ts]''"
  using Update_removal_denied[of newResponse "eventsModel [column ''id'' ''UInt64''] False ''MergeTree()''"
            "eventsModel [column ''id'' ''UInt64'', column ''ts'' ''DateTime''] False ''MergeTree()''"
            specQuerybuilder scriptedClient "\<lambda>err. []" "scripted []"]
  by (simp add: columnsToRemove_events fmtStrings_ts newResponse_def HasError_def
        eventsModel_def[THEN arg_cong[where f=m_AllowDrops]] ValueBool_def)

section \<open>The plan of an update\<close>

lemma orderBySetOf_foldl:
  "foldl (\<lambda>m col. m(col := True)) m0 xs n \<longleftrightarrow> m0 n \<or> n \<in> set xs"
  by (induction xs arbitrary: m0) auto

lemma orderBySetOf_iff: "orderBySetOf xs n \<longleftrightarrow> n \<in> set xs"
  by (simp add: orderBySetOf_def orderBySetOf_foldl)

text \<open>
  With \<open>allow_drops\<close> true the loop runs to its end: it keeps the diagnostics it was
  given, adds warnings only, warns of every removed column that is in ORDER BY, and sets
  \<open>requiresReplace\<close> when there is one.
\<close>

lemma checkStateColumns_allowed:
  assumes "ValueBool (m_AllowDrops plan)"
  shows "\<exists>diags rr. checkStateColumns pc plan obs cols diags0 rr0 = (diags, Some rr)
           \<and> (rr0 \<longrightarrow> rr)
           \<and> ((\<exists>col \<in> set cols. pc (ValueString (Column_Name col)) = None \<and> obs (ValueString (Column_Name col))) \<longrightarrow> rr)
           \<and> (HasError diags \<longleftrightarrow> HasError diags0)
           \<and> set diags0 \<subseteq> set diags
           \<and> (\<forall>col \<in> set cols. pc (ValueString (Column_Name col)) = None \<and> obs (ValueString (Column_Name col))
                 \<longrightarrow> WarningDiag ''Cannot remove column in ORDER BY''
                        (''Column '' @ [CHR 0x27] @ ValueString (Column_Name col) @ [CHR 0x27]
                         @ '' is part of the table's ORDER BY clause and cannot be removed. This requires recreating the table.'')
                      \<in> set diags)"
  using assms
proof (induction cols arbitrary: diags0 rr0)
  case Nil
  then show ?case by simp
next
  case (Cons col cols)
  show ?case
  proof (cases "pc (ValueString (Column_Name col))")
    case None
    show ?thesis
    proof (cases "obs (ValueString (Column_Name col))")
      case True
      from Cons.IH[OF Cons.prems, of "AddWarning diags0 ''Cannot remove column in ORDER BY''
                       (''Column '' @ [CHR 0x27] @ ValueString (Column_Name col) @ [CHR 0x27]
                        @ '' is part of the table's ORDER BY clause and cannot be removed. This requires recreating the table.'')" True]
      show ?thesis using None True Cons.prems
        by (auto simp: HasError_AddWarning AddWarning_set)
    next
      case False
      from Cons.IH[OF Cons.prems, of diags0 rr0]
      show ?thesis using None False Cons.prems by auto
    qed
  next
    case (Some planCol)
    show ?thesis
    proof (cases "Column_Type col = Column_Type planCol")
      case True
      from Cons.IH[OF Cons.prems, of diags0 rr0]
      show ?thesis using Some True by auto
    next
      case False
      from Cons.IH[OF Cons.prems, of "AddWarning diags0 ''Column type change requires table recreation''
                       (''Column '' @ [CHR 0x27] @ ValueString (Column_Name col) @ [CHR 0x27]
                        @ '' type change from '' @ [CHR 0x27] @ ValueString (Column_Type col) @ [CHR 0x27]
                        @ '' to '' @ [CHR 0x27] @ ValueString (Column_Type planCol) @ [CHR 0x27]
                        @ '' requires recreating the table.'')" True]
      show ?thesis using Some False
        by (auto simp: HasError_AddWarning AddWarning_set)
    qed
  qed
qed

text \<open>
  With \<open>allow_drops\<close> false the loop leaves at the first column of the state that the
  plan has not, with the error that names it after the warnings made so far.
\<close>

lemma checkStateColumns_denied:
  assumes "\<not> ValueBool (m_AllowDrops plan)"
      and "find (\<lambda>col. pc (ValueString (Column_Name col)) = None) cols = Some removed"
      and "\<not> HasError diags0"
  shows "\<exists>ws. checkStateColumns pc plan obs cols diags0 rr0 =
                (ws @ [ErrorDiag ''Column removal not allowed''
                         (''Column '' @ [CHR 0x27] @ ValueString (Column_Name removed) @ [CHR 0x27]
                          @ '' cannot be removed because 'allow_drops' is set to false. To allow column removal, set 'allow_drops = true' in your table configuration.'')],
                 None)
              \<and> \<not> HasError ws"
  using assms
proof (induction cols arbitrary: diags0 rr0)
  case Nil
  then show ?case by simp
next
  case (Cons col cols)
  show ?case
  proof (cases "pc (ValueString (Column_Name col))")
    case None
    with Cons.prems(2) have "removed = col" by simp
    with None Cons.prems(1,3) show ?thesis
      by (simp add: AddError_no_error)
  next
    case (Some planCol)
    with Cons.prems(2) have f: "find (\<lambda>col. pc (ValueString (Column_Name col)) = None) cols = Some removed"
      by simp
    show ?thesis
    proof (cases "Column_Type col = Column_Type planCol")
      case True
      from Cons.IH[OF Cons.prems(1) f Cons.prems(3), of rr0] Some True show ?thesis by simp
    next
      case False
      have "\<not> HasError (AddWarning diags0 ''Column type change requires table recreation''
                       (''Column '' @ [CHR 0x27] @ ValueString (Column_Name col) @ [CHR 0x27]
                        @ '' type change from '' @ [CHR 0x27] @ ValueString (Column_Type col) @ [CHR 0x27]
                        @ '' to '' @ [CHR 0x27] @ ValueString (Column_Type planCol) @ [CHR 0x27]
                        @ '' requires recreating the table.''))"
        using Cons.prems(3) by (simp add: HasError_AddWarning)
      from Cons.IH[OF Cons.prems(1) f this, of True] Some False show ?thesis by simp
    qed
  qed
qed

lemma find_removed:
  "find (\<lambda>col. columnMap planCols (ValueString (Column_Name col)) = None) cols
     = find (\<lambda>col. ValueString (Column_Name col) \<notin> columnNames planCols) cols"
  by (simp add: columnMap_None columnNames_def)

text \<open>
  C1, as the code has it: in a planned update whose state has a column that the plan has
  not and that is among the ORDER BY columns of the state, \<open>ModifyPlan\<close> with
  \<open>allow_drops\<close> true appends \<open>columns\<close> to \<open>RequiresReplace\<close>, has the warning
  "Cannot remove column in ORDER BY" for that column among its diagnostics and reports no
  error; with \<open>allow_drops\<close> false it leaves \<open>RequiresReplace\<close> as it was and ends its
  diagnostics, which hold no other error, with the error "Column removal not allowed" for
  the first column of the state that the plan has not.
\<close>

theorem ModifyPlan_order_by_column_removed:
  assumes noerr: "\<not> HasError (PlanDiagnostics resp)"
      and ob: "m_OrderBy state = Known orderByColumns"
      and col: "stateCol \<in> set (m_Columns state)"
      and absent: "ValueString (Column_Name stateCol) \<notin> columnNames (m_Columns plan)"
      and mem: "ValueString (Column_Name stateCol) \<in> set orderByColumns"
  shows "(ValueBool (m_AllowDrops plan) \<longrightarrow>
            RequiresReplace (ModifyPlan (Some plan) (Some state) resp) = RequiresReplace resp @ [''columns'']
            \<and> WarningDiag ''Cannot remove column in ORDER BY''
                 (''Column '' @ [CHR 0x27] @ ValueString (Column_Name stateCol) @ [CHR 0x27]
                  @ '' is part of the table's ORDER BY clause and cannot be removed. This requires recreating the table.'')
                \<in> set (PlanDiagnostics (ModifyPlan (Some plan) (Some state) resp))
            \<and> \<not> HasError (PlanDiagnostics (ModifyPlan (Some plan) (Some state) resp)))
       \<and> (\<not> ValueBool (m_AllowDrops plan) \<longrightarrow>
            RequiresReplace (ModifyPlan (Some plan) (Some state) resp) = RequiresReplace resp
            \<and> (\<exists>removed ws.
                  find (\<lambda>col. ValueString (Column_Name col) \<notin> columnNames (m_Columns plan)) (m_Columns state)
                    = Some removed
                  \<and> PlanDiagnostics (ModifyPlan (Some plan) (Some state) resp) =
                      ws @ [ErrorDiag ''Column removal not allowed''
                              (''Column '' @ [CHR 0x27] @ ValueString (Column_Name removed) @ [CHR 0x27]
                               @ '' cannot be removed because 'allow_drops' is set to false. To allow column removal, set 'allow_drops = true' in your table configuration.'')]
                  \<and> \<not> HasError ws))"
proof (intro conjI impI)
  assume allow: "ValueBool (m_AllowDrops plan)"
  from checkStateColumns_allowed[OF allow, of "columnMap (m_Columns plan)" "orderBySetOf orderByColumns"
         "m_Columns state" "PlanDiagnostics resp" False]
  obtain diags rr where r: "checkStateColumns (columnMap (m_Columns plan)) plan (orderBySetOf orderByColumns)
                   (m_Columns state) (PlanDiagnostics resp) False = (diags, Some rr)"
     and rr: "(\<exists>col \<in> set (m_Columns state). columnMap (m_Columns plan) (ValueString (Column_Name col)) = None
                 \<and> orderBySetOf orderByColumns (ValueString (Column_Name col))) \<longrightarrow> rr"
     and he: "HasError diags \<longleftrightarrow> HasError (PlanDiagnostics resp)"
     and warn: "\<forall>col \<in> set (m_Columns state).
                  columnMap (m_Columns plan) (ValueString (Column_Name col)) = None
                  \<and> orderBySetOf orderByColumns (ValueString (Column_Name col))
                 \<longrightarrow> WarningDiag ''Cannot remove column in ORDER BY''
                        (''Column '' @ [CHR 0x27] @ ValueString (Column_Name col) @ [CHR 0x27]
                         @ '' is part of the table's ORDER BY clause and cannot be removed. This requires recreating the table.'')
                      \<in> set diags"
    by blast
  have removed: "columnMap (m_Columns plan) (ValueString (Column_Name stateCol)) = None
                 \<and> orderBySetOf orderByColumns (ValueString (Column_Name stateCol))"
    using absent mem by (simp add: columnMap_None orderBySetOf_iff columnNames_def)
  with col rr have "rr" by blast
  with r noerr ob show "RequiresReplace (ModifyPlan (Some plan) (Some state) resp) = RequiresReplace resp @ [''columns'']"
    by (simp add: ModifyPlan_def IsNull_def ListElementsAs_def)
  from warn col removed
  have "WarningDiag ''Cannot remove column in ORDER BY''
          (''Column '' @ [CHR 0x27] @ ValueString (Column_Name stateCol) @ [CHR 0x27]
           @ '' is part of the table's ORDER BY clause and cannot be removed. This requires recreating the table.'')
        \<in> set diags" by blast
  with r noerr ob show "WarningDiag ''Cannot remove column in ORDER BY''
                 (''Column '' @ [CHR 0x27] @ ValueString (Column_Name stateCol) @ [CHR 0x27]
                  @ '' is part of the table's ORDER BY clause and cannot be removed. This requires recreating the table.'')
                \<in> set (PlanDiagnostics (ModifyPlan (Some plan) (Some state) resp))"
    by (simp add: ModifyPlan_def IsNull_def ListElementsAs_def)
  from r noerr ob he show "\<not> HasError (PlanDiagnostics (ModifyPlan (Some plan) (Some state) resp))"
    by (simp add: ModifyPlan_def IsNull_def ListElementsAs_def)
next
  assume deny: "\<not> ValueBool (m_AllowDrops plan)"
  from col absent obtain removed
    where f: "find (\<lambda>col. columnMap (m_Columns plan) (ValueString (Column_Name col)) = None) (m_Columns state)
                = Some removed"
    by (cases "find (\<lambda>col. columnMap (m_Columns plan) (ValueString (Column_Name col)) = None) (m_Columns state)")
       (auto simp: find_None_iff columnMap_None columnNames_def)
  from checkStateColumns_denied[OF deny f noerr, of "orderBySetOf orderByColumns" False]
  obtain ws where r: "checkStateColumns (columnMap (m_Columns plan)) plan (orderBySetOf orderByColumns)
                   (m_Columns state) (PlanDiagnostics resp) False =
                (ws @ [ErrorDiag ''Column removal not allowed''
                         (''Column '' @ [CHR 0x27] @ ValueString (Column_Name removed) @ [CHR 0x27]
                          @ '' cannot be removed because 'allow_drops' is set to false. To allow column removal, set 'allow_drops = true' in your table configuration.'')],
                 None)"
      and ws: "\<not> HasError ws"
    by blast
  from r noerr ob show "RequiresReplace (ModifyPlan (Some plan) (Some state) resp) = RequiresReplace resp"
    by (simp add: ModifyPlan_def IsNull_def ListElementsAs_def)
  from r noerr ob have "PlanDiagnostics (ModifyPlan (Some plan) (Some state) resp) =
                      ws @ [ErrorDiag ''Column removal not allowed''
                              (''Column '' @ [CHR 0x27] @ ValueString (Column_Name removed) @ [CHR 0x27]
                               @ '' cannot be removed because 'allow_drops' is set to false. To allow column removal, set 'allow_drops = true' in your table configuration.'')]"
    by (simp add: ModifyPlan_def IsNull_def ListElementsAs_def)
  with f ws show "\<exists>removed ws.
                  find (\<lambda>col. ValueString (Column_Name col) \<notin> columnNames (m_Columns plan)) (m_Columns state)
                    = Some removed
                  \<and> PlanDiagnostics (ModifyPlan (Some plan) (Some state) resp) =
                      ws @ [ErrorDiag ''Column removal not allowed''
                              (''Column '' @ [CHR 0x27] @ ValueString (Column_Name removed) @ [CHR 0x27]
                               @ '' cannot be removed because 'allow_drops' is set to false. To allow column removal, set 'allow_drops = true' in your table configuration.'')]
                  \<and> \<not> HasError ws"
    unfolding find_removed by blast
qed

theorem ModifyPlan_order_by_column_removed_witness:
  "RequiresReplace (ModifyPlan
       (Some (eventsModel [column ''ts'' ''DateTime''] True ''MergeTree()''))
       (Some (eventsModel [column ''id'' ''UInt64'', column ''ts'' ''DateTime''] True ''MergeTree()''))
       noDiagnostics) = [''columns'']
   \<and> WarningDiag ''Cannot remove column in ORDER BY''
        ''Column 'id' is part of the table's ORDER BY clause and cannot be removed. This requires recreating the table.''
      \<in> set (PlanDiagnostics (ModifyPlan
            (Some (eventsModel [column ''ts'' ''DateTime''] True ''MergeTree()''))
            (Some (eventsModel [column ''id'' ''UInt64'', column ''ts'' ''DateTime''] True ''MergeTree()''))
            noDiagnostics))
   \<and> RequiresReplace (ModifyPlan
       (Some (eventsModel [column ''ts'' ''DateTime''] False ''MergeTree()''))
       (Some (eventsModel [column ''id'' ''UInt64'', column ''ts'' ''DateTime''] False ''MergeTree()''))
       noDiagnostics) = []
   \<and> ErrorDiag ''Column removal not allowed''
        ''Column 'id' cannot be removed because 'allow_drops' is set to false. To allow column removal, set 'allow_drops = true' in your table configuration.''
      \<in> set (PlanDiagnostics (ModifyPlan
            (Some (eventsModel [column ''ts'' ''DateTime''] False ''MergeTree()''))
            (Some (eventsModel [column ''id'' ''UInt64'', column ''ts'' ''DateTime''] False ''MergeTree()''))
            noDiagnostics))"
proof -
  have nm: "ValueString (Column_Name (column ''id'' ''UInt64'')) = ''id''"
    by (simp add: column_def ValueString_def)
  have t: "RequiresReplace (ModifyPlan
       (Some (eventsModel [column ''ts'' ''DateTime''] True ''MergeTree()''))
       (Some (eventsModel [column ''id'' ''UInt64'', column ''ts'' ''DateTime''] True ''MergeTree()''))
       noDiagnostics) = [''columns'']
   \<and> WarningDiag ''Cannot remove column in ORDER BY''
        ''Column 'id' is part of the table's ORDER BY clause and cannot be removed. This requires recreating the table.''
      \<in> set (PlanDiagnostics (ModifyPlan
            (Some (eventsModel [column ''ts'' ''DateTime''] True ''MergeTree()''))
            (Some (eventsModel [column ''id'' ''UInt64'', column ''ts'' ''DateTime''] True ''MergeTree()''))
            noDiagnostics))"
    using ModifyPlan_order_by_column_removed[where resp=noDiagnostics
            and state="eventsModel [column ''id'' ''UInt64'', column ''ts'' ''DateTime''] True ''MergeTree()''"
            and plan="eventsModel [column ''ts'' ''DateTime''] True ''MergeTree()''"
            and orderByColumns="[''id'']" and stateCol="column ''id'' ''UInt64''"]
    by (simp add: eventsModel_sel columnNames_simps noDiagnostics_def HasError_def ValueBool_def nm)
  have "RequiresReplace (ModifyPlan
       (Some (eventsModel [column ''ts'' ''DateTime''] False ''MergeTree()''))
       (Some (eventsModel [column ''id'' ''UInt64'', column ''ts'' ''DateTime''] False ''MergeTree()''))
       noDiagnostics) = []
   \<and> (\<exists>ws. PlanDiagnostics (ModifyPlan
            (Some (eventsModel [column ''ts'' ''DateTime''] False ''MergeTree()''))
            (Some (eventsModel [column ''id'' ''UInt64'', column ''ts'' ''DateTime''] False ''MergeTree()''))
            noDiagnostics) =
          ws @ [ErrorDiag ''Column removal not allowed''
        ''Column 'id' cannot be removed because 'allow_drops' is set to false. To allow column removal, set 'allow_drops = true' in your table configuration.''])"
    using ModifyPlan_order_by_column_removed[where resp=noDiagnostics
            and state="eventsModel [column ''id'' ''UInt64'', column ''ts'' ''DateTime''] False ''MergeTree()''"
            and plan="eventsModel [column ''ts'' ''DateTime''] False ''MergeTree()''"
            and orderByColumns="[''id'']" and stateCol="column ''id'' ''UInt64''"]
    by (auto simp: eventsModel_sel columnNames_simps noDiagnostics_def HasError_def ValueBool_def nm)
  then have f: "RequiresReplace (ModifyPlan
       (Some (eventsModel [column ''ts'' ''DateTime''] False ''MergeTree()''))
       (Some (eventsModel [column ''id'' ''UInt64'', column ''ts'' ''DateTime''] False ''MergeTree()''))
       noDiagnostics) = []
   \<and> ErrorDiag ''Column removal not allowed''
        ''Column 'id' cannot be removed because 'allow_drops' is set to false. To allow column removal, set 'allow_drops = true' in your table configuration.''
      \<in> set (PlanDiagnostics (ModifyPlan
            (Some (eventsModel [column ''ts'' ''DateTime''] False ''MergeTree()''))
            (Some (eventsModel [column ''id'' ''UInt64'', column ''ts'' ''DateTime''] False ''MergeTree()''))
            noDiagnostics))"
    by auto
  from t f show ?thesis by blast
qed

text \<open>
  C1 as stated fails: with \<open>allow_drops\<close> false, the column \<open>id\<close> of the state is absent
  from the plan and is the ORDER BY column, and \<open>ModifyPlan\<close> does not mark the resource
  for replacement.
\<close>

theorem ModifyPlan_denied_no_replace_counterexample:
  "column ''id'' ''UInt64'' \<in> set (m_Columns (eventsModel [column ''id'' ''UInt64'', column ''ts'' ''DateTime''] False ''MergeTree()''))
   \<and> ValueString (Column_Name (column ''id'' ''UInt64'')) \<notin> columnNames (m_Columns (eventsModel [column ''ts'' ''DateTime''] False ''MergeTree()''))
   \<and> m_OrderBy (eventsModel [column ''id'' ''UInt64'', column ''ts'' ''DateTime''] False ''MergeTree()'') = Known [''id'']
   \<and> ValueString (Column_Name (column ''id'' ''UInt64'')) \<in> set [''id'']
   \<and> ''columns'' \<notin> set (RequiresReplace (ModifyPlan
         (Some (eventsModel [column ''ts'' ''DateTime''] False ''MergeTree()''))
         (Some (eventsModel [column ''id'' ''UInt64'', column ''ts'' ''DateTime''] False ''MergeTree()''))
         noDiagnostics))"
  by (simp add: eventsModel_sel columnNames_def noDiagnostics_def HasError_def ValueBool_def
        column_def ValueString_def ModifyPlan_def IsNull_def ListElementsAs_def columnMap_def
        AddError_def)

section \<open>Engine normalisation in the state\<close>

lemma normalize_MergeTree_parens: "normalizeEngineName ''MergeTree()'' = ''MergeTree''"
  by code_simp

lemma normalize_MergeTree: "normalizeEngineName ''MergeTree'' = ''MergeTree''"
  by code_simp

lemma normalize_SharedMergeTree: "normalizeEngineName ''SharedMergeTree'' = ''SharedMergeTree''"
  by code_simp

lemma cloud_forward: "isCloudEngineTransformation ''MergeTree'' ''SharedMergeTree''"
  by code_simp

lemma cloud_reverse: "isCloudEngineTransformation ''SharedMergeTree'' ''MergeTree''"
  by code_simp

lemma syncEngine_alias:
  assumes "(m_Engine plan = Known ''MergeTree()'' \<and> Engine table = ''SharedMergeTree'')
         \<or> (m_Engine plan = Known ''SharedMergeTree'' \<and> Engine table = ''MergeTree'')"
  shows "syncEngine (Some plan) table = m_Engine plan"
  using assms
  by (auto simp: syncEngine_def IsNull_def ValueString_def Let_def normalize_MergeTree_parens
        normalize_MergeTree normalize_SharedMergeTree cloud_forward cloud_reverse)

lemma stateOfTable_succeeds:
  assumes "m_PrimaryKey plan \<noteq> Unknown" and "m_Settings plan \<noteq> Unknown"
  shows "\<exists>st. stateOfTable cluster (Some plan) table = Inr st \<and> m_Engine st = syncEngine (Some plan) table"
  using assms
  by (cases "m_PrimaryKey plan"; cases "m_Settings plan")
     (auto simp: stateOfTable_def andThen_def syncPrimaryKey_def syncSettings_def IsNull_def
        ListElementsAs_def MapElementsAs_def)

text \<open>
  C7: when the planned engine is \<open>MergeTree()\<close> and the catalog reports
  \<open>SharedMergeTree\<close>, and when the planned engine is \<open>SharedMergeTree\<close> and the catalog
  reports \<open>MergeTree\<close>, the state \<open>syncTableState\<close> returns has the planned engine
  string (the planned primary key and settings being known or null, so that it returns a
  state).
\<close>

theorem engine_alias_retained:
  assumes "GetTable qb c uuid cluster w = (Inr (Some table), w1)"
      and "m_PrimaryKey plan \<noteq> Unknown" and "m_Settings plan \<noteq> Unknown"
      and "(m_Engine plan = Known ''MergeTree()'' \<and> Engine table = ''SharedMergeTree'')
         \<or> (m_Engine plan = Known ''SharedMergeTree'' \<and> Engine table = ''MergeTree'')"
  shows "\<exists>st. syncTableState qb c uuid cluster (Some plan) w = (Inr (Some st), w1)
              \<and> m_Engine st = m_Engine plan"
proof -
  from stateOfTable_succeeds[OF assms(2,3)] obtain st
    where st: "stateOfTable cluster (Some plan) table = Inr st"
      and e: "m_Engine st = syncEngine (Some plan) table" by blast
  from assms(1) st have "syncTableState qb c uuid cluster (Some plan) w = (Inr (Some st), w1)"
    by (simp add: syncTableState_def)
  with e syncEngine_alias[OF assms(4)] show ?thesis by simp
qed


theorem engine_alias_retained_witness:
  "(\<exists>st. syncTableState specQuerybuilder scriptedClient ''u-1'' None
            (Some (eventsModel [] False ''MergeTree()''))
            (scripted [Inr [eventsRow ''SharedMergeTree''], Inr eventsColumnRows]) = (Inr (Some st), scripted [])
         \<and> m_Engine st = Known ''MergeTree()'')
   \<and> (\<exists>st. syncTableState specQuerybuilder scriptedClient ''u-1'' None
            (Some (eventsModel [] False ''SharedMergeTree''))
            (scripted [Inr [eventsRow ''MergeTree''], Inr eventsColumnRows]) = (Inr (Some st), scripted [])
         \<and> m_Engine st = Known ''SharedMergeTree'')"
  using engine_alias_retained[OF GetTable_events[of "''SharedMergeTree''" "[]"], of "eventsModel [] False ''MergeTree()''"]
        engine_alias_retained[OF GetTable_events[of "''MergeTree''" "[]"], of "eventsModel [] False ''SharedMergeTree''"]
  by (simp add: eventsModel_sel eventsTable_def)

section \<open>The order of the settings in CREATE TABLE\<close>

lemma rangeOrder_optimized_1:
  "rangeOrder (settings optimizedTable) [(''index_granularity'', ''16384''), (''merge_with_ttl_timeout'', ''86400'')]"
  by (auto simp: rangeOrder_def optimizedTable_def WithSettings_def fun_eq_iff)

lemma rangeOrder_optimized_2:
  "rangeOrder (settings optimizedTable) [(''merge_with_ttl_timeout'', ''86400''), (''index_granularity'', ''16384'')]"
  by (simp add: rangeOrder_def optimizedTable_def WithSettings_def)

lemma Build_optimized_1:
  "createTable_Build specQuerybuilder [(''index_granularity'', ''16384''), (''merge_with_ttl_timeout'', ''86400'')] optimizedTable
     = Inr ''CREATE TABLE `mydb`.`optimized` (`id` UInt64) ENGINE = MergeTree() ORDER BY (`id`) SETTINGS index_granularity = 16384, merge_with_ttl_timeout = 86400;''"
  by (simp add: createTable_Build_def optimizedTable_def WithSettings_def WithOrderBy_def WithEngine_def
        NewCreateTable_def specQuerybuilder_def commaList_def columnDef_def)

lemma Build_optimized_2:
  "createTable_Build specQuerybuilder [(''merge_with_ttl_timeout'', ''86400''), (''index_granularity'', ''16384'')] optimizedTable
     = Inr ''CREATE TABLE `mydb`.`optimized` (`id` UInt64) ENGINE = MergeTree() ORDER BY (`id`) SETTINGS merge_with_ttl_timeout = 86400, index_granularity = 16384;''"
  by (simp add: createTable_Build_def optimizedTable_def WithSettings_def WithOrderBy_def WithEngine_def
        NewCreateTable_def specQuerybuilder_def commaList_def columnDef_def)

lemma Build_results_I:
  "rangeOrder (settings q) kvs \<Longrightarrow> createTable_Build qb kvs q \<in> createTable_Build_results qb q"
  unfolding createTable_Build_results_def by blast

text \<open>
  C8: for the builder of the repository's test "table with settings", whose settings map
  has two entries, \<open>Build\<close> may return the statement the test expects and may return
  the statement with the two settings in the other order: two calls need not agree.
\<close>

theorem createTable_Build_settings_order:
  "Inr ''CREATE TABLE `mydb`.`optimized` (`id` UInt64) ENGINE = MergeTree() ORDER BY (`id`) SETTINGS index_granularity = 16384, merge_with_ttl_timeout = 86400;''
     \<in> createTable_Build_results specQuerybuilder optimizedTable
   \<and> Inr ''CREATE TABLE `mydb`.`optimized` (`id` UInt64) ENGINE = MergeTree() ORDER BY (`id`) SETTINGS merge_with_ttl_timeout = 86400, index_granularity = 16384;''
     \<in> createTable_Build_results specQuerybuilder optimizedTable"
  using Build_results_I[OF rangeOrder_optimized_1, of specQuerybuilder]
        Build_results_I[OF rangeOrder_optimized_2, of specQuerybuilder]
  by (simp only: Build_optimized_1 Build_optimized_2 simp_thms)

section \<open>TTL and settings of the engine descriptor\<close>

lemma Index_None_iff: "Index s tok = None \<longleftrightarrow> \<not> sublist tok s"
proof (induction s)
  case Nil
  then show ?case by simp
next
  case (Cons c cs)
  then show ?case by (auto simp: sublist_Cons_right)
qed

lemma firstOccurrence_Index:
  "firstOccurrence tok s before after \<Longrightarrow> Index s tok = Some (length before)"
proof (induction before arbitrary: s)
  case Nil
  then have "s = tok @ after" by (simp add: firstOccurrence_def)
  then have p: "prefix tok s" by simp
  show ?case
  proof (cases s)
    case Nil
    with p show ?thesis by simp
  next
    case (Cons c cs)
    with p show ?thesis by simp
  qed
next
  case (Cons c before)
  from Cons.prems have s: "s = c # (before @ tok @ after)"
    and least: "\<And>before' after'. s = before' @ tok @ after' \<Longrightarrow> Suc (length before) \<le> length before'"
    by (auto simp: firstOccurrence_def)
  have np: "\<not> prefix tok s"
  proof
    assume "prefix tok s"
    then obtain r where "s = [] @ tok @ r" by (auto simp: prefix_def)
    from least[OF this] show False by simp
  qed
  have "firstOccurrence tok (before @ tok @ after) before after"
    unfolding firstOccurrence_def
  proof (intro conjI allI impI)
    show "before @ tok @ after = before @ tok @ after" by simp
  next
    fix before' after'
    assume "before @ tok @ after = before' @ tok @ after'"
    with s have "s = (c # before') @ tok @ after'" by simp
    from least[OF this] show "length before \<le> length before'" by simp
  qed
  from Cons.IH[OF this] np s show ?case by simp
qed

lemma Index_firstOccurrence:
  "Index s tok = Some i \<Longrightarrow> firstOccurrence tok s (take i s) (drop (i + length tok) s)"
proof (induction s arbitrary: i)
  case Nil
  then show ?case by (auto simp: firstOccurrence_def split: if_splits)
next
  case (Cons c cs)
  show ?case
  proof (cases "prefix tok (c # cs)")
    case True
    with Cons.prems have "i = 0" by simp
    with True show ?thesis by (auto simp: firstOccurrence_def prefix_def)
  next
    case False
    with Cons.prems obtain j where j: "Index cs tok = Some j" and i: "i = Suc j" by auto
    from Cons.IH[OF j] have fo: "firstOccurrence tok cs (take j cs) (drop (j + length tok) cs)" .
    show ?thesis unfolding firstOccurrence_def
    proof (intro conjI allI impI)
      from fo i show "c # cs = take i (c # cs) @ tok @ drop (i + length tok) (c # cs)"
        by (simp add: firstOccurrence_def)
    next
      fix before' after'
      assume e: "c # cs = before' @ tok @ after'"
      show "length (take i (c # cs)) \<le> length before'"
      proof (cases before')
        case Nil
        with e False show ?thesis by (simp add: prefix_def)
      next
        case (Cons d ds)
        with e have cs: "cs = ds @ tok @ after'" by simp
        from fo have "\<forall>b a. cs = b @ tok @ a \<longrightarrow> length (take j cs) \<le> length b"
          unfolding firstOccurrence_def by blast
        with cs have "length (take j cs) \<le> length ds" by blast
        with i Cons show ?thesis by simp
      qed
    qed
  qed
qed

lemma foldl_addSetting:
  "foldl addSetting m pieces = m ++ settingsOfPieces pieces"
proof (induction pieces arbitrary: m)
  case Nil
  then show ?case by (simp add: settingsOfPieces_def List.map_filter_simps)
next
  case (Cons p ps)
  show ?case
  proof (cases "keyValue p")
    case None
    then have "addSetting m p = m"
      by (auto simp: addSetting_def keyValue_def split: list.splits)
    with None Cons.IH show ?thesis
      by (simp add: settingsOfPieces_def List.map_filter_simps)
  next
    case (Some kv)
    obtain k v where kv: "kv = (k, v)" by (cases kv)
    from Some kv have a: "addSetting m p = m(k \<mapsto> v)"
      by (auto simp: addSetting_def keyValue_def split: list.splits)
    have "foldl addSetting m (p # ps) = foldl addSetting (m(k \<mapsto> v)) ps"
      by (simp only: foldl_Cons a)
    also have "\<dots> = m(k \<mapsto> v) ++ settingsOfPieces ps"
      by (rule Cons.IH)
    also have "\<dots> = m ++ ([k \<mapsto> v] ++ settingsOfPieces ps)"
      by (auto simp: map_add_def fun_eq_iff split: option.splits)
    also have "[k \<mapsto> v] ++ settingsOfPieces ps = settingsOfPieces (p # ps)"
      using Some kv by (simp add: settingsOfPieces_def List.map_filter_simps)
    finally show ?thesis .
  qed
qed

lemma parse_ttl_none:
  assumes "\<not> sublist ''TTL '' e"
  shows "fst (parseEngineFullForTTLAndSettings e) = []"
proof -
  from assms have "Index e ''TTL '' = None" by (simp add: Index_None_iff)
  then show ?thesis by (simp add: parseEngineFullForTTLAndSettings_def Let_def)
qed

lemma parse_ttl_to_end:
  assumes "firstOccurrence ''TTL '' e before after" and "\<not> sublist '' SETTINGS'' after"
  shows "fst (parseEngineFullForTTLAndSettings e) = TrimSpace after"
proof -
  from assms(1) have i: "Index e ''TTL '' = Some (length before)" by (rule firstOccurrence_Index)
  from assms(1) have e: "e = before @ ''TTL '' @ after" by (simp add: firstOccurrence_def)
  then have d: "sliceFrom e (length before + 4) = after" by (simp add: sliceFrom_def)
  from assms(2) have "Index after '' SETTINGS'' = None" by (simp add: Index_None_iff)
  with i d show ?thesis
    by (simp add: parseEngineFullForTTLAndSettings_def Let_def)
qed

lemma parse_ttl_to_settings:
  assumes "firstOccurrence ''TTL '' e before after" and "firstOccurrence '' SETTINGS'' after body rest"
  shows "fst (parseEngineFullForTTLAndSettings e) = TrimSpace body"
proof -
  from assms(1) have i: "Index e ''TTL '' = Some (length before)" by (rule firstOccurrence_Index)
  from assms(1) have e: "e = before @ ''TTL '' @ after" by (simp add: firstOccurrence_def)
  then have d: "sliceFrom e (length before + 4) = after" by (simp add: sliceFrom_def)
  from assms(2) have j: "Index after '' SETTINGS'' = Some (length body)" by (rule firstOccurrence_Index)
  from assms(2) have a: "after = body @ '' SETTINGS'' @ rest" by (simp add: firstOccurrence_def)
  from e a have "slice e (length before + 4) (length before + 4 + length body) = body"
    by (simp add: slice_def)
  with i d j show ?thesis
    by (simp add: parseEngineFullForTTLAndSettings_def Let_def)
qed

lemma parse_settings_none:
  assumes "\<not> sublist ''SETTINGS '' e"
  shows "snd (parseEngineFullForTTLAndSettings e) = Map.empty"
proof -
  from assms have "Index e ''SETTINGS '' = None" by (simp add: Index_None_iff)
  then show ?thesis by (simp add: parseEngineFullForTTLAndSettings_def Let_def)
qed

lemma parse_settings_some:
  assumes "firstOccurrence ''SETTINGS '' e before after"
  shows "snd (parseEngineFullForTTLAndSettings e) = settingsOfPieces (Split after CHR '','')"
proof -
  from assms have i: "Index e ''SETTINGS '' = Some (length before)" by (rule firstOccurrence_Index)
  from assms have e: "e = before @ ''SETTINGS '' @ after" by (simp add: firstOccurrence_def)
  then have d: "sliceFrom e (length before + 9) = after" by (simp add: sliceFrom_def)
  with i show ?thesis
    by (simp add: parseEngineFullForTTLAndSettings_def Let_def foldl_addSetting)
qed


lemma firstOccurrenceI:
  "Index s tok = Some (length before) \<Longrightarrow> s = before @ tok @ after \<Longrightarrow> firstOccurrence tok s before after"
  using Index_firstOccurrence[of s tok "length before"] by simp

lemma not_sublistI: "Index s tok = None \<Longrightarrow> \<not> sublist tok s"
  by (simp add: Index_None_iff)

text \<open>
  C9: without the token \<open>TTL \<close> the TTL is empty; with it, the TTL is the trimmed text
  after its first occurrence, up to the first \<open> SETTINGS\<close> that follows, or up to the
  end when none follows. Without the token \<open>SETTINGS \<close> the settings map is empty; with
  it, the map is made of the pieces between the commas of the text after its first
  occurrence that split at \<open>=\<close> into exactly a key and a value, both trimmed.
\<close>

theorem parseEngineFull_extracts:
  "(\<not> sublist ''TTL '' e \<longrightarrow> fst (parseEngineFullForTTLAndSettings e) = [])
   \<and> (firstOccurrence ''TTL '' e before after \<and> \<not> sublist '' SETTINGS'' after
        \<longrightarrow> fst (parseEngineFullForTTLAndSettings e) = TrimSpace after)
   \<and> (firstOccurrence ''TTL '' e before after \<and> firstOccurrence '' SETTINGS'' after body rest
        \<longrightarrow> fst (parseEngineFullForTTLAndSettings e) = TrimSpace body)
   \<and> (\<not> sublist ''SETTINGS '' e \<longrightarrow> snd (parseEngineFullForTTLAndSettings e) = Map.empty)
   \<and> (firstOccurrence ''SETTINGS '' e before' after'
        \<longrightarrow> snd (parseEngineFullForTTLAndSettings e) = settingsOfPieces (Split after' CHR '',''))"
  using parse_ttl_none parse_ttl_to_end parse_ttl_to_settings parse_settings_none parse_settings_some
  by blast

theorem parseEngineFull_extracts_witness:
  "fst (parseEngineFullForTTLAndSettings
          ''MergeTree ORDER BY id TTL d + toIntervalDay(30) SETTINGS index_granularity = 8192, ttl_only_drop_parts = 1'')
     = ''d + toIntervalDay(30)''
   \<and> snd (parseEngineFullForTTLAndSettings
          ''MergeTree ORDER BY id TTL d + toIntervalDay(30) SETTINGS index_granularity = 8192, ttl_only_drop_parts = 1'')
        ''index_granularity'' = Some ''8192''
   \<and> snd (parseEngineFullForTTLAndSettings
          ''MergeTree ORDER BY id TTL d + toIntervalDay(30) SETTINGS index_granularity = 8192, ttl_only_drop_parts = 1'')
        ''ttl_only_drop_parts'' = Some ''1''
   \<and> fst (parseEngineFullForTTLAndSettings ''MergeTree ORDER BY id TTL d + toIntervalDay(30)'') = ''d + toIntervalDay(30)''
   \<and> parseEngineFullForTTLAndSettings ''MergeTree ORDER BY id'' = ([], Map.empty)"
proof -
  let ?e = "''MergeTree ORDER BY id TTL d + toIntervalDay(30) SETTINGS index_granularity = 8192, ttl_only_drop_parts = 1''"
  let ?after = "''d + toIntervalDay(30) SETTINGS index_granularity = 8192, ttl_only_drop_parts = 1''"
  have "Index ?e ''TTL '' = Some (length ''MergeTree ORDER BY id '')" by code_simp
  then have ttl: "firstOccurrence ''TTL '' ?e ''MergeTree ORDER BY id '' ?after"
    by (rule firstOccurrenceI) simp
  have "Index ?after '' SETTINGS'' = Some (length ''d + toIntervalDay(30)'')" by code_simp
  then have stg: "firstOccurrence '' SETTINGS'' ?after ''d + toIntervalDay(30)''
                    '' index_granularity = 8192, ttl_only_drop_parts = 1''"
    by (rule firstOccurrenceI) simp
  have "Index ?e ''SETTINGS '' = Some (length ''MergeTree ORDER BY id TTL d + toIntervalDay(30) '')" by code_simp
  then have stg': "firstOccurrence ''SETTINGS '' ?e ''MergeTree ORDER BY id TTL d + toIntervalDay(30) ''
                    ''index_granularity = 8192, ttl_only_drop_parts = 1''"
    by (rule firstOccurrenceI) simp
  have trim: "TrimSpace ''d + toIntervalDay(30)'' = ''d + toIntervalDay(30)''" by code_simp
  have m1: "settingsOfPieces (Split ''index_granularity = 8192, ttl_only_drop_parts = 1'' CHR '','') ''index_granularity'' = Some ''8192''"
    by code_simp
  have m2: "settingsOfPieces (Split ''index_granularity = 8192, ttl_only_drop_parts = 1'' CHR '','') ''ttl_only_drop_parts'' = Some ''1''"
    by code_simp
  let ?e2 = "''MergeTree ORDER BY id TTL d + toIntervalDay(30)''"
  have "Index ?e2 ''TTL '' = Some (length ''MergeTree ORDER BY id '')" by code_simp
  then have ttl2: "firstOccurrence ''TTL '' ?e2 ''MergeTree ORDER BY id '' ''d + toIntervalDay(30)''"
    by (rule firstOccurrenceI) simp
  have "Index ''d + toIntervalDay(30)'' '' SETTINGS'' = None" by code_simp
  then have ns2: "\<not> sublist '' SETTINGS'' ''d + toIntervalDay(30)''" by (rule not_sublistI)
  let ?e3 = "''MergeTree ORDER BY id''"
  have "Index ?e3 ''TTL '' = None" by code_simp
  then have nt3: "\<not> sublist ''TTL '' ?e3" by (rule not_sublistI)
  have "Index ?e3 ''SETTINGS '' = None" by code_simp
  then have ns3: "\<not> sublist ''SETTINGS '' ?e3" by (rule not_sublistI)
  from parseEngineFull_extracts[of ?e "''MergeTree ORDER BY id ''" ?after "''d + toIntervalDay(30)''"
             "'' index_granularity = 8192, ttl_only_drop_parts = 1''"
             "''MergeTree ORDER BY id TTL d + toIntervalDay(30) ''"
             "''index_granularity = 8192, ttl_only_drop_parts = 1''"]
       ttl stg stg' trim m1 m2
  have a: "fst (parseEngineFullForTTLAndSettings ?e) = ''d + toIntervalDay(30)''
         \<and> snd (parseEngineFullForTTLAndSettings ?e) ''index_granularity'' = Some ''8192''
         \<and> snd (parseEngineFullForTTLAndSettings ?e) ''ttl_only_drop_parts'' = Some ''1''"
    by simp
  from parseEngineFull_extracts[of ?e2 "''MergeTree ORDER BY id ''" "''d + toIntervalDay(30)''"] ttl2 ns2 trim
  have b: "fst (parseEngineFullForTTLAndSettings ?e2) = ''d + toIntervalDay(30)''" by simp
  from parseEngineFull_extracts[of ?e3] nt3 ns3
  have c: "parseEngineFullForTTLAndSettings ?e3 = ([], Map.empty)"
    by (simp add: prod_eq_iff)
  from a b c show ?thesis by blast
qed


end
